theory Spec2Isabelle
  imports Main
begin

section \<open>Python values and exceptions\<close>

text \<open>
  The values that travel between \<^verbatim>\<open>pcups/api.py\<close> and the printing-system client:
  \<^verbatim>\<open>None\<close>, integers, strings and lists. A Python \<^verbatim>\<open>str\<close> is a \<open>string\<close> whose
  characters are the code points below 256.
\<close>

datatype pyval = PyNone | PyInt int | PyStr string | PyList "pyval list"

text \<open>
  The exception kinds of \<^verbatim>\<open>pcups/exceptions.py\<close>, the client library's
  \<^verbatim>\<open>cups.IPPError\<close> (status and description) and \<^verbatim>\<open>RuntimeError\<close>, and the built-in
  kinds the interpreter raises in this code. An exception raised by \<^verbatim>\<open>api.py\<close> is built
  from one message and nothing else.
\<close>

datatype py_exn =
    IPPError int string
  | JobCompletedError string
  | JobNotFoundError string
  | JobDocumentNotAvailableError string
  | PrinterNotFoundError string
  | NotImplementedError string
  | AttributeError string
  | ValueError string
  | KeyError string
  | TypeError
  | UnboundLocalError
  | RuntimeError string

text \<open>
  \<^verbatim>\<open>except cups.IPPError\<close> catches the library's error and its subclasses: the four
  kinds of \<^verbatim>\<open>exceptions.py\<close> derive from \<^verbatim>\<open>PrintBaseException(IPPError)\<close>.
\<close>

fun is_IPPError :: "py_exn \<Rightarrow> bool" where
  "is_IPPError (IPPError _ _) = True"
| "is_IPPError (JobCompletedError _) = True"
| "is_IPPError (JobNotFoundError _) = True"
| "is_IPPError (JobDocumentNotAvailableError _) = True"
| "is_IPPError (PrinterNotFoundError _) = True"
| "is_IPPError _ = False"

fun is_KeyError :: "py_exn \<Rightarrow> bool" where
  "is_KeyError (KeyError _) = True"
| "is_KeyError _ = False"

fun is_ValueError :: "py_exn \<Rightarrow> bool" where
  "is_ValueError (ValueError _) = True"
| "is_ValueError _ = False"

section \<open>The built-ins the code calls\<close>

subsection \<open>\<^verbatim>\<open>str\<close>, \<^verbatim>\<open>repr\<close> and \<^verbatim>\<open>'{}'.format\<close>\<close>

definition digit_char :: "nat \<Rightarrow> char" where
  "digit_char d = ''0123456789abcdef'' ! d"

fun str_nat :: "nat \<Rightarrow> string" where
  "str_nat n = (if n < 10 then [digit_char n] else str_nat (n div 10) @ [digit_char (n mod 10)])"

declare str_nat.simps [simp del]

definition str_int :: "int \<Rightarrow> string" where
  "str_int i = (if i < 0 then CHR ''-'' # str_nat (nat (- i)) else str_nat (nat i))"

text \<open>
  \<^verbatim>\<open>repr\<close> of a \<^verbatim>\<open>str\<close>: single quotes, unless the string holds a single quote and no
  double quote; the quote and the backslash are escaped, tab, newline and carriage return
  are written \<^verbatim>\<open>\t \n \r\<close>, every other non-printable code point below 256 as
  \<^verbatim>\<open>\xhh\<close>.
\<close>

definition printable :: "char \<Rightarrow> bool" where
  "printable c = (let n = (of_char c :: nat) in
     32 \<le> n \<and> n < 127 \<or> 161 \<le> n \<and> n \<noteq> 173)"

definition repr_char :: "char \<Rightarrow> char \<Rightarrow> string" where
  "repr_char quote c =
    (if c = quote \<or> c = CHR 0x5C then [CHR 0x5C, c]
     else if c = CHR 0x09 then [CHR 0x5C, CHR ''t'']
     else if c = CHR 0x0A then [CHR 0x5C, CHR ''n'']
     else if c = CHR 0x0D then [CHR 0x5C, CHR ''r'']
     else if printable c then [c]
     else [CHR 0x5C, CHR ''x'',
           digit_char ((of_char c :: nat) div 16), digit_char ((of_char c :: nat) mod 16)])"

definition repr_str :: "string \<Rightarrow> string" where
  "repr_str s =
    (let quote = (if CHR 0x27 \<in> set s \<and> CHR 0x22 \<notin> set s then CHR 0x22 else CHR 0x27)
     in [quote] @ concat (map (repr_char quote) s) @ [quote])"

fun join :: "string \<Rightarrow> string list \<Rightarrow> string" where
  "join sep [] = []"
| "join sep [x] = x"
| "join sep (x # y # ys) = x @ sep @ join sep (y # ys)"

fun py_repr :: "pyval \<Rightarrow> string" where
  "py_repr PyNone = ''None''"
| "py_repr (PyInt i) = str_int i"
| "py_repr (PyStr s) = repr_str s"
| "py_repr (PyList xs) = ''['' @ join '', '' (map py_repr xs) @ '']''"

text \<open>\<^verbatim>\<open>'{}'.format(v)\<close> is \<^verbatim>\<open>str(v)\<close>; it differs from \<^verbatim>\<open>repr\<close> on strings only.\<close>

fun py_str :: "pyval \<Rightarrow> string" where
  "py_str (PyStr s) = s"
| "py_str v = py_repr v"

subsection \<open>\<^verbatim>\<open>int\<close> of a string\<close>

text \<open>
  \<^verbatim>\<open>int(s)\<close> in base 10: white space around the literal is skipped (tab to carriage
  return, space, and of the code points from 127 on those that are spaces, \<^verbatim>\<open>0x85\<close> and
  \<^verbatim>\<open>0xA0\<close>), one sign is allowed, and the digits may be grouped by single underscores.
  Anything else raises \<^verbatim>\<open>ValueError\<close>, whose message shows the first 200 characters of
  the argument's \<^verbatim>\<open>repr\<close>. (Interpreters from 3.11 on also refuse literals of more than
  4300 digits; a file name has at most 255 characters.)
\<close>

definition is_space :: "char \<Rightarrow> bool" where
  "is_space c = (c \<in> set [CHR 0x09, CHR 0x0A, CHR 0x0B, CHR 0x0C, CHR 0x0D, CHR 0x20,
                            CHR 0x85, CHR 0xA0])"

definition is_digit :: "char \<Rightarrow> bool" where
  "is_digit c = (c \<in> set ''0123456789'')"

definition digit_val :: "char \<Rightarrow> nat" where
  "digit_val c = (of_char c :: nat) - 48"

fun digits_ok :: "string \<Rightarrow> bool" where
  "digits_ok [] = False"
| "digits_ok [c] = is_digit c"
| "digits_ok (c # d # r) =
     (if is_digit c then (if d = CHR ''_'' then digits_ok r else digits_ok (d # r)) else False)"

definition nat_of_digits :: "string \<Rightarrow> nat" where
  "nat_of_digits ds = foldl (\<lambda>a c. 10 * a + digit_val c) 0 ds"

definition py_int :: "string \<Rightarrow> py_exn + int" where
  "py_int s =
    (let t = dropWhile is_space s;
         neg = (case t of [] \<Rightarrow> False | c # _ \<Rightarrow> c = CHR ''-'');
         u = (case t of [] \<Rightarrow> [] | c # r \<Rightarrow> if c = CHR ''+'' \<or> c = CHR ''-'' then r else t);
         tok = takeWhile (\<lambda>c. is_digit c \<or> c = CHR ''_'') u;
         rest = dropWhile is_space (dropWhile (\<lambda>c. is_digit c \<or> c = CHR ''_'') u);
         n = int (nat_of_digits (filter is_digit tok))
     in if digits_ok tok \<and> rest = []
        then Inr (if neg then - n else n)
        else Inl (ValueError (''invalid literal for int() with base 10: '' @
                                take 200 (repr_str s))))"

section \<open>Jobs: the control files of the spool directory\<close>

type_synonym attrs = "string \<rightharpoonup> pyval"

text \<open>
  A \<^verbatim>\<open>Job\<close> object: \<^verbatim>\<open>job_id\<close> is whatever the constructor was given;
  \<^verbatim>\<open>attributes\<close> exists only once \<^verbatim>\<open>status\<close> has stored it (\<open>None\<close> before).
\<close>

record job =
  job_id :: pyval
  job_attributes :: "attrs option"

text \<open>
  \<^verbatim>\<open>job_number\<close>, the local function of \<^verbatim>\<open>Job.list\<close>: the loop over
  \<^verbatim>\<open>enumerate(filename)\<close> returns \<^verbatim>\<open>int(filename[index:])\<close> at the first character
  that is neither \<^verbatim>\<open>c\<close> nor \<^verbatim>\<open>0\<close>, and \<^verbatim>\<open>None\<close> when the loop ends.
\<close>

fun job_number_loop :: "string \<Rightarrow> nat \<Rightarrow> string \<Rightarrow> py_exn + pyval" where
  "job_number_loop filename index [] = Inr PyNone"
| "job_number_loop filename index (char # rest) =
     (if char \<notin> set [CHR ''c'', CHR ''0'']
      then (case py_int (drop index filename) of Inl e \<Rightarrow> Inl e | Inr n \<Rightarrow> Inr (PyInt n))
      else job_number_loop filename (Suc index) rest)"

definition job_number :: "string \<Rightarrow> py_exn + pyval" where
  "job_number filename = job_number_loop filename 0 filename"

text \<open>
  \<^verbatim>\<open>spooldir.glob('c*')\<close> yields the entries of the spool directory whose name starts
  with \<^verbatim>\<open>c\<close>; the directory is given by the names of its entries, in the order the scan
  yields them.
\<close>

definition glob_c :: "string list \<Rightarrow> string list" where
  "glob_c entries = filter (\<lambda>n. case n of [] \<Rightarrow> False | c # _ \<Rightarrow> c = CHR ''c'') entries"

text \<open>
  The routine in the words of the specification: drop the leading run of \<^verbatim>\<open>c\<close> and
  \<^verbatim>\<open>0\<close>, read all that is left as a decimal integer; nothing left gives \<^verbatim>\<open>None\<close>.
\<close>

definition job_number_spec :: "string \<Rightarrow> py_exn + pyval" where
  "job_number_spec filename =
    (let suffix = dropWhile (\<lambda>c. c = CHR ''c'' \<or> c = CHR ''0'') filename
     in if suffix = [] then Inr PyNone
        else (case py_int suffix of Inl e \<Rightarrow> Inl e | Inr n \<Rightarrow> Inr (PyInt n)))"

section \<open>The printing-system client\<close>

text \<open>
  \<^verbatim>\<open>cups.Connection\<close> is the external library. Its state at the time of an operation
  is a record of what the constructor \<^verbatim>\<open>cups.Connection()\<close> and each method answer:
  the value returned or the exception raised (the constructor raises
  \<^verbatim>\<open>RuntimeError\<close> when no scheduler answers). \<^verbatim>\<open>getPrinters\<close> returns a dictionary keyed
  by queue name, of which \<^verbatim>\<open>api.py\<close> uses the keys only (membership and iteration
  order); \<^verbatim>\<open>getDefault\<close> returns a name or \<^verbatim>\<open>None\<close>.
\<close>

record connection =
  Connection :: "py_exn + unit"
  getDefault :: "py_exn + string option"
  getPrinters :: "py_exn + string list"
  getJobAttributes :: "pyval \<Rightarrow> py_exn + attrs"
  cancelJob :: "pyval \<Rightarrow> py_exn + unit"
  restartJob :: "pyval \<Rightarrow> py_exn + unit"
  getPrinterAttributes :: "string \<Rightarrow> py_exn + attrs"
  deletePrinter :: "string \<Rightarrow> py_exn + unit"
  disablePrinter :: "string \<Rightarrow> py_exn + unit"
  enablePrinter :: "string \<Rightarrow> py_exn + unit"
  printFile :: "string \<Rightarrow> string \<Rightarrow> string \<Rightarrow> (string \<times> string) list \<Rightarrow> py_exn + int"

text \<open>Every call on a connection is recorded, in order.\<close>

datatype call =
    Connect
  | GetDefault
  | GetPrinters
  | GetJobAttributes pyval
  | CancelJob pyval
  | RestartJob pyval
  | GetPrinterAttributes string
  | DeletePrinter string
  | DisablePrinter string
  | EnablePrinter string
  | PrintFile string string string "(string \<times> string) list"

record world =
  conn :: connection
  calls :: "call list"

definition invoke :: "call \<Rightarrow> world \<Rightarrow> world" where
  "invoke c w = w\<lparr>calls := calls w @ [c]\<rparr>"

text \<open>\<^verbatim>\<open>BaseCUPS.__init__\<close>: \<^verbatim>\<open>self.conn = cups.Connection()\<close>.\<close>

definition BaseCUPS_init :: "world \<Rightarrow> (py_exn + unit) \<times> world" where
  "BaseCUPS_init w = (Connection (conn w), invoke Connect w)"

definition conn_getDefault :: "world \<Rightarrow> (py_exn + string option) \<times> world" where
  "conn_getDefault w = (getDefault (conn w), invoke GetDefault w)"

definition conn_getPrinters :: "world \<Rightarrow> (py_exn + string list) \<times> world" where
  "conn_getPrinters w = (getPrinters (conn w), invoke GetPrinters w)"

definition conn_getJobAttributes :: "pyval \<Rightarrow> world \<Rightarrow> (py_exn + attrs) \<times> world" where
  "conn_getJobAttributes i w = (getJobAttributes (conn w) i, invoke (GetJobAttributes i) w)"

definition conn_cancelJob :: "pyval \<Rightarrow> world \<Rightarrow> (py_exn + unit) \<times> world" where
  "conn_cancelJob i w = (cancelJob (conn w) i, invoke (CancelJob i) w)"

definition conn_restartJob :: "pyval \<Rightarrow> world \<Rightarrow> (py_exn + unit) \<times> world" where
  "conn_restartJob i w = (restartJob (conn w) i, invoke (RestartJob i) w)"

definition conn_getPrinterAttributes :: "string \<Rightarrow> world \<Rightarrow> (py_exn + attrs) \<times> world" where
  "conn_getPrinterAttributes n w =
     (getPrinterAttributes (conn w) n, invoke (GetPrinterAttributes n) w)"

definition conn_deletePrinter :: "string \<Rightarrow> world \<Rightarrow> (py_exn + unit) \<times> world" where
  "conn_deletePrinter n w = (deletePrinter (conn w) n, invoke (DeletePrinter n) w)"

definition conn_disablePrinter :: "string \<Rightarrow> world \<Rightarrow> (py_exn + unit) \<times> world" where
  "conn_disablePrinter n w = (disablePrinter (conn w) n, invoke (DisablePrinter n) w)"

definition conn_enablePrinter :: "string \<Rightarrow> world \<Rightarrow> (py_exn + unit) \<times> world" where
  "conn_enablePrinter n w = (enablePrinter (conn w) n, invoke (EnablePrinter n) w)"

definition conn_printFile ::
  "string \<Rightarrow> string \<Rightarrow> string \<Rightarrow> (string \<times> string) list \<Rightarrow> world \<Rightarrow> (py_exn + int) \<times> world" where
  "conn_printFile n filename title options w =
     (printFile (conn w) n filename title options, invoke (PrintFile n filename title options) w)"

section \<open>Dictionary and string operators\<close>

text \<open>\<^verbatim>\<open>d[key]\<close> on an attribute dictionary raises \<^verbatim>\<open>KeyError(key)\<close> for a missing key.\<close>

definition subscript :: "attrs \<Rightarrow> string \<Rightarrow> py_exn + pyval" where
  "subscript d k = (case d k of None \<Rightarrow> Inl (KeyError k) | Some v \<Rightarrow> Inr v)"

text \<open>
  \<^verbatim>\<open>d.get(key)\<close> on a dictionary with integer keys: the value, or \<^verbatim>\<open>None\<close> for a
  key that is not there; a list is unhashable and raises \<^verbatim>\<open>TypeError\<close>.
\<close>

fun dict_get :: "(int \<times> string) list \<Rightarrow> pyval \<Rightarrow> py_exn + pyval" where
  "dict_get d (PyInt k) = (case map_of d k of None \<Rightarrow> Inr PyNone | Some s \<Rightarrow> Inr (PyStr s))"
| "dict_get d (PyList xs) = Inl TypeError"
| "dict_get d v = Inr PyNone"

text \<open>\<^verbatim>\<open>a + b\<close>: defined on two values of the same kind, never on \<^verbatim>\<open>None\<close>.\<close>

fun py_add :: "pyval \<Rightarrow> pyval \<Rightarrow> py_exn + pyval" where
  "py_add (PyStr a) (PyStr b) = Inr (PyStr (a @ b))"
| "py_add (PyInt a) (PyInt b) = Inr (PyInt (a + b))"
| "py_add (PyList a) (PyList b) = Inr (PyList (a @ b))"
| "py_add a b = Inl TypeError"

section \<open>\<^verbatim>\<open>Job\<close>\<close>

text \<open>\<^verbatim>\<open>Job(job_id)\<close>: the connection is opened first, then the id is stored.\<close>

definition Job_init :: "pyval \<Rightarrow> world \<Rightarrow> (py_exn + job) \<times> world" where
  "Job_init i w =
    (case BaseCUPS_init w of
       (Inl e, w1) \<Rightarrow> (Inl e, w1)
     | (Inr u, w1) \<Rightarrow> (Inr \<lparr>job_id = i, job_attributes = None\<rparr>, w1))"

text \<open>
  The list comprehension of \<^verbatim>\<open>Job.list\<close>: for each control file \<^verbatim>\<open>job_number\<close> is
  evaluated, then \<^verbatim>\<open>Job\<close> is called on its result; the first exception ends it.
\<close>

fun Job_list_loop :: "string list \<Rightarrow> world \<Rightarrow> (py_exn + job list) \<times> world" where
  "Job_list_loop [] w = (Inr [], w)"
| "Job_list_loop (controlfile # rest) w =
     (case job_number controlfile of
        Inl e \<Rightarrow> (Inl e, w)
      | Inr i \<Rightarrow>
          (case Job_init i w of
             (Inl e, w1) \<Rightarrow> (Inl e, w1)
           | (Inr j, w1) \<Rightarrow>
               (case Job_list_loop rest w1 of
                  (Inl e, w2) \<Rightarrow> (Inl e, w2)
                | (Inr js, w2) \<Rightarrow> (Inr (j # js), w2))))"

definition Job_list :: "string list \<Rightarrow> world \<Rightarrow> (py_exn + job list) \<times> world" where
  "Job_list spooldir w = Job_list_loop (glob_c spooldir) w"

definition job_states :: "(int \<times> string) list" where
  "job_states =
    [(3, ''Pending''), (4, ''Pending-held''), (5, ''Processing''), (6, ''Processing-stopped''),
     (7, ''Canceled''), (8, ''Aborted''), (9, ''Completed'')]"

text \<open>
  The body of the \<^verbatim>\<open>try\<close> shared by \<^verbatim>\<open>Job.status\<close> and \<^verbatim>\<open>Printer.status\<close>:
  \<^verbatim>\<open>s = states.get(state)\<close>, then
  \<^verbatim>\<open>output = s if reasons == ['none'] else s + " - {}".format(reasons)\<close>.
\<close>

definition status_body :: "(int \<times> string) list \<Rightarrow> pyval \<Rightarrow> pyval \<Rightarrow> py_exn + pyval" where
  "status_body states state reasons =
    (case dict_get states state of
       Inl e \<Rightarrow> Inl e
     | Inr s \<Rightarrow> if reasons = PyList [PyStr ''none''] then Inr s
                else py_add s (PyStr ('' - '' @ py_str reasons)))"

text \<open>\<^verbatim>\<open>except KeyError: output = 'Not detected.'\<close>\<close>

definition except_KeyError :: "py_exn + pyval \<Rightarrow> py_exn + pyval" where
  "except_KeyError r =
    (case r of
       Inl e \<Rightarrow> if is_KeyError e then Inr (PyStr ''Not detected.'') else Inl e
     | Inr v \<Rightarrow> Inr v)"

definition Job_status :: "job \<Rightarrow> world \<Rightarrow> (py_exn + pyval) \<times> job \<times> world" where
  "Job_status self w =
    (case conn_getJobAttributes (job_id self) w of
       (Inl e, w1) \<Rightarrow>
         if is_IPPError e
         then (Inl (JobNotFoundError (''Job '' @ py_str (job_id self) @ '' does not exist.'')),
               self, w1)
         else (Inl e, self, w1)
     | (Inr a, w1) \<Rightarrow>
         let self1 = self\<lparr>job_attributes := Some a\<rparr> in
         (case subscript a ''job-state'' of
            Inl e \<Rightarrow> (Inl e, self1, w1)
          | Inr state \<Rightarrow>
              (case subscript a ''job-state-reasons'' of
                 Inl e \<Rightarrow> (Inl e, self1, w1)
               | Inr reasons \<Rightarrow>
                   (except_KeyError (status_body job_states state reasons), self1, w1))))"

definition Job_cancel :: "job \<Rightarrow> world \<Rightarrow> (py_exn + unit) \<times> job \<times> world" where
  "Job_cancel self w =
    (case conn_cancelJob (job_id self) w of
       (Inl e, w1) \<Rightarrow>
         if is_IPPError e
         then (Inl (JobCompletedError (''Job '' @ py_str (job_id self) @ '' has been completed.'')),
               self, w1)
         else (Inl e, self, w1)
     | (Inr u, w1) \<Rightarrow> (Inr (), self, w1))"

definition Job_restart :: "job \<Rightarrow> world \<Rightarrow> (py_exn + unit) \<times> job \<times> world" where
  "Job_restart self w =
    (case conn_restartJob (job_id self) w of
       (Inl e, w1) \<Rightarrow>
         if is_IPPError e
         then (Inl (JobDocumentNotAvailableError
                      (''Job's '' @ py_str (job_id self) @ '' document does not exist.'')),
               self, w1)
         else (Inl e, self, w1)
     | (Inr u, w1) \<Rightarrow> (Inr (), self, w1))"

section \<open>\<^verbatim>\<open>Printer\<close>\<close>

text \<open>
  The fields \<^verbatim>\<open>__init__\<close> sets: \<^verbatim>\<open>_name\<close> (read through the property \<^verbatim>\<open>name\<close>),
  \<^verbatim>\<open>job_id\<close>, \<^verbatim>\<open>attributes\<close>, \<^verbatim>\<open>device_uri\<close>, \<^verbatim>\<open>location\<close> and
  \<^verbatim>\<open>default_message\<close>. \<open>None\<close> in an optional field is Python's \<^verbatim>\<open>None\<close>.
\<close>

record printer =
  name :: string
  printer_job_id :: "int option"
  printer_attributes :: "attrs option"
  device_uri :: pyval
  location :: pyval
  default_message :: string

text \<open>The property \<^verbatim>\<open>valid\<close> and its setter.\<close>

definition Printer_valid :: "printer \<Rightarrow> world \<Rightarrow> (py_exn + bool) \<times> world" where
  "Printer_valid self w =
    (case conn_getPrinters w of
       (Inl e, w1) \<Rightarrow> (Inl e, w1)
     | (Inr printers, w1) \<Rightarrow> if name self \<in> set printers then (Inr True, w1) else (Inr False, w1))"

definition Printer_valid_setter ::
  "pyval \<Rightarrow> printer \<Rightarrow> world \<Rightarrow> (py_exn + unit) \<times> printer \<times> world" where
  "Printer_valid_setter v self w =
     (Inl (AttributeError ''Valid is not a writable attribute.''), self, w)"

text \<open>
  The setter of \<^verbatim>\<open>name\<close>. Each assignment takes effect as it is executed: an exception
  leaves the fields assigned before it.
\<close>

definition Printer_name_setter ::
  "string \<Rightarrow> printer \<Rightarrow> world \<Rightarrow> (py_exn + unit) \<times> printer \<times> world" where
  "Printer_name_setter n self w =
    (let self1 = self\<lparr>name := n\<rparr> in
     case Printer_valid self1 w of
       (Inl e, w1) \<Rightarrow> (Inl e, self1, w1)
     | (Inr v, w1) \<Rightarrow>
         if v then
           (case conn_getPrinterAttributes (name self1) w1 of
              (Inl e, w2) \<Rightarrow> (Inl e, self1, w2)
            | (Inr a, w2) \<Rightarrow>
                let self2 = self1\<lparr>printer_attributes := Some a\<rparr> in
                (case subscript a ''device-uri'' of
                   Inl e \<Rightarrow> (Inl e, self2, w2)
                 | Inr u \<Rightarrow>
                     let self3 = self2\<lparr>device_uri := u\<rparr> in
                     (case subscript a ''printer-location'' of
                        Inl e \<Rightarrow> (Inl e, self3, w2)
                      | Inr l \<Rightarrow> (Inr (), self3\<lparr>location := l\<rparr>, w2))))
         else (Inr (), self1, w1))"

text \<open>
  \<^verbatim>\<open>Printer(name)\<close>: the connection is opened, the fields are set, and the name is
  assigned through the setter. The object exists for the caller only when
  \<^verbatim>\<open>__init__\<close> returns; \<^verbatim>\<open>_name\<close> has no value until the setter's first statement gives
  it one.
\<close>

definition Printer_init :: "string \<Rightarrow> world \<Rightarrow> (py_exn + printer) \<times> world" where
  "Printer_init n w =
    (case BaseCUPS_init w of
       (Inl e, w0) \<Rightarrow> (Inl e, w0)
     | (Inr u, w0) \<Rightarrow>
         let self = \<lparr>name = [], printer_job_id = None, printer_attributes = None,
                     device_uri = PyNone, location = PyNone,
                     default_message = ''Unable to locate the printer.''\<rparr> in
         (case Printer_name_setter n self w0 of
            (Inl e, self1, w1) \<Rightarrow> (Inl e, w1)
          | (Inr u, self1, w1) \<Rightarrow> (Inr self1, w1)))"

definition printer_states :: "(int \<times> string) list" where
  "printer_states = [(3, ''Idle''), (4, ''Processing''), (5, ''Stopped'')]"

definition Printer_status :: "printer \<Rightarrow> world \<Rightarrow> (py_exn + pyval) \<times> world" where
  "Printer_status self w =
    (let output = PyStr (default_message self) in
     case Printer_valid self w of
       (Inl e, w1) \<Rightarrow> (Inl e, w1)
     | (Inr v, w1) \<Rightarrow>
         if v then
           (case conn_getPrinterAttributes (name self) w1 of
              (Inl e, w2) \<Rightarrow> (Inl e, w2)
            | (Inr a, w2) \<Rightarrow>
                (case subscript a ''printer-state'' of
                   Inl e \<Rightarrow> (Inl e, w2)
                 | Inr state \<Rightarrow>
                     (case conn_getPrinterAttributes (name self) w2 of
                        (Inl e, w3) \<Rightarrow> (Inl e, w3)
                      | (Inr b, w3) \<Rightarrow>
                          (case subscript b ''printer-state-reasons'' of
                             Inl e \<Rightarrow> (Inl e, w3)
                           | Inr reasons \<Rightarrow>
                               (except_KeyError (status_body printer_states state reasons),
                                w3)))))
         else (Inr output, w1))"

definition Printer_validate :: "printer \<Rightarrow> world \<Rightarrow> (py_exn + unit) \<times> world" where
  "Printer_validate self w =
    (case Printer_valid self w of
       (Inl e, w1) \<Rightarrow> (Inl e, w1)
     | (Inr v, w1) \<Rightarrow>
         if \<not> v then (Inl (NotImplementedError (default_message self)), w1)
         else (Inr (), w1))"

definition Printer_delete :: "printer \<Rightarrow> world \<Rightarrow> (py_exn + unit) \<times> printer \<times> world" where
  "Printer_delete self w =
    (case Printer_validate self w of
       (Inl e, w1) \<Rightarrow> (Inl e, self, w1)
     | (Inr u, w1) \<Rightarrow>
         (case conn_deletePrinter (name self) w1 of (r, w2) \<Rightarrow> (r, self, w2)))"

definition Printer_disable :: "printer \<Rightarrow> world \<Rightarrow> (py_exn + unit) \<times> printer \<times> world" where
  "Printer_disable self w =
    (case Printer_validate self w of
       (Inl e, w1) \<Rightarrow> (Inl e, self, w1)
     | (Inr u, w1) \<Rightarrow>
         (case conn_disablePrinter (name self) w1 of (r, w2) \<Rightarrow> (r, self, w2)))"

definition Printer_enable :: "printer \<Rightarrow> world \<Rightarrow> (py_exn + unit) \<times> printer \<times> world" where
  "Printer_enable self w =
    (case Printer_validate self w of
       (Inl e, w1) \<Rightarrow> (Inl e, self, w1)
     | (Inr u, w1) \<Rightarrow>
         (case conn_enablePrinter (name self) w1 of (r, w2) \<Rightarrow> (r, self, w2)))"

definition Printer_add :: "printer \<Rightarrow> world \<Rightarrow> (py_exn + unit) \<times> printer \<times> world" where
  "Printer_add self w =
    (case Printer_validate self w of
       (Inl e, w1) \<Rightarrow> (Inl e, self, w1)
     | (Inr u, w1) \<Rightarrow> (Inr (), self, w1))"

definition Printer_print ::
  "string \<Rightarrow> string \<Rightarrow> (string \<times> string) list \<Rightarrow> printer \<Rightarrow> world
     \<Rightarrow> (py_exn + int) \<times> printer \<times> world" where
  "Printer_print filename title options self w =
    (case Printer_validate self w of
       (Inl e, w1) \<Rightarrow> (Inl e, self, w1)
     | (Inr u, w1) \<Rightarrow>
         (case conn_printFile (name self) filename title options w1 of
            (Inl e, w2) \<Rightarrow> (Inl e, self, w2)
          | (Inr i, w2) \<Rightarrow> (Inr i, self\<lparr>printer_job_id := Some i\<rparr>, w2)))"

definition Printer_export_ppd :: "printer \<Rightarrow> world \<Rightarrow> (py_exn + unit) \<times> printer \<times> world" where
  "Printer_export_ppd self w =
    (case Printer_validate self w of
       (Inl e, w1) \<Rightarrow> (Inl e, self, w1)
     | (Inr u, w1) \<Rightarrow> (Inr (), self, w1))"

section \<open>\<^verbatim>\<open>CUPS\<close>\<close>

text \<open>A name is truthy when it is a string that is not empty.\<close>

definition CUPS_get_default :: "world \<Rightarrow> (py_exn + printer option) \<times> world" where
  "CUPS_get_default w =
    (case conn_getDefault w of
       (Inl e, w1) \<Rightarrow> (Inl e, w1)
     | (Inr default_printer, w1) \<Rightarrow>
         (case default_printer of
            None \<Rightarrow> (Inr None, w1)
          | Some n \<Rightarrow>
              if n \<noteq> [] then
                (case Printer_init n w1 of
                   (Inl e, w2) \<Rightarrow> (Inl e, w2)
                 | (Inr p, w2) \<Rightarrow> (Inr (Some p), w2))
              else (Inr None, w1)))"

text \<open>The list comprehension of \<^verbatim>\<open>get_printers\<close>: one constructor call per key, in order.\<close>

fun get_printers_loop :: "string list \<Rightarrow> world \<Rightarrow> (py_exn + printer list) \<times> world" where
  "get_printers_loop [] w = (Inr [], w)"
| "get_printers_loop (n # ns) w =
    (case Printer_init n w of
       (Inl e, w1) \<Rightarrow> (Inl e, w1)
     | (Inr p, w1) \<Rightarrow>
         (case get_printers_loop ns w1 of
            (Inl e, w2) \<Rightarrow> (Inl e, w2)
          | (Inr ps, w2) \<Rightarrow> (Inr (p # ps), w2)))"

definition CUPS_get_printers :: "world \<Rightarrow> (py_exn + printer list) \<times> world" where
  "CUPS_get_printers w =
    (case conn_getPrinters w of
       (Inl e, w1) \<Rightarrow> (Inl e, w1)
     | (Inr printers, w1) \<Rightarrow> get_printers_loop printers w1)"

text \<open>
  \<^verbatim>\<open>get_job_attributes(self)\<close> declares no parameter besides \<^verbatim>\<open>self\<close>: a call with
  further positional arguments raises \<^verbatim>\<open>TypeError\<close> before the body runs. In the body
  \<^verbatim>\<open>jobid\<close> is a local variable, because the body assigns it, and it has no value when
  \<^verbatim>\<open>int(jobid)\<close> reads it.
\<close>

definition read_local :: "pyval option \<Rightarrow> py_exn + pyval" where
  "read_local x = (case x of None \<Rightarrow> Inl UnboundLocalError | Some v \<Rightarrow> Inr v)"

fun int_of :: "pyval \<Rightarrow> py_exn + int" where
  "int_of (PyInt i) = Inr i"
| "int_of (PyStr s) = py_int s"
| "int_of v = Inl TypeError"

definition CUPS_get_job_attributes :: "pyval list \<Rightarrow> world \<Rightarrow> (py_exn + attrs) \<times> world" where
  "CUPS_get_job_attributes args w =
    (if args \<noteq> [] then (Inl TypeError, w)
     else
       let jobid = None in
       (case (case read_local jobid of Inl e \<Rightarrow> Inl e | Inr v \<Rightarrow> int_of v) of
          Inl e \<Rightarrow>
            if is_ValueError e
            then (Inl (ValueError ''Job id should be interger, str is given.''), w)
            else (Inl e, w)
        | Inr i \<Rightarrow> conn_getJobAttributes (PyInt i) w))"

text \<open>
  What \<^verbatim>\<open>Printer(n)\<close> raises, read off the answers of the connection: the error of
  opening the connection, of listing the queues or, for a listed name, of the attribute
  query; \<^verbatim>\<open>KeyError\<close> for a cached key the attributes lack; nothing otherwise.
\<close>

definition init_error :: "connection \<Rightarrow> string \<Rightarrow> py_exn option" where
  "init_error c n =
    (case Connection c of
       Inl e \<Rightarrow> Some e
     | Inr u \<Rightarrow>
         (case getPrinters c of
            Inl e \<Rightarrow> Some e
          | Inr printers \<Rightarrow>
              if n \<notin> set printers then None
              else
                (case getPrinterAttributes c n of
                   Inl e \<Rightarrow> Some e
                 | Inr a \<Rightarrow>
                     if a ''device-uri'' = None then Some (KeyError ''device-uri'')
                     else if a ''printer-location'' = None then Some (KeyError ''printer-location'')
                     else None)))"

section \<open>A print server to run the operations on\<close>

text \<open>
  Three queues, three jobs. Job 7 is printing, job 8 is completed, job 9 reports a state
  code no table has; the queue \<^verbatim>\<open>attic\<close> does the same.
\<close>

definition printer_attributes_of :: "string \<Rightarrow> int \<Rightarrow> pyval \<Rightarrow> attrs" where
  "printer_attributes_of n state reasons =
    [''device-uri'' \<mapsto> PyStr (''ipp://'' @ n @ ''.example/ipp/print''),
     ''printer-location'' \<mapsto> PyStr ''Room 12'',
     ''printer-state'' \<mapsto> PyInt state,
     ''printer-state-reasons'' \<mapsto> reasons]"

definition job_attributes_of :: "int \<Rightarrow> pyval \<Rightarrow> attrs" where
  "job_attributes_of state reasons =
    [''job-state'' \<mapsto> PyInt state, ''job-state-reasons'' \<mapsto> reasons]"

definition not_found :: py_exn where
  "not_found = IPPError 1030 ''client-error-not-found''"

definition office_connection :: connection where
  "office_connection =
    \<lparr>Connection = Inr (),
     getDefault = Inr (Some ''office''),
     getPrinters = Inr [''office'', ''lab'', ''attic''],
     getJobAttributes = (\<lambda>i.
       if i = PyInt 7 then Inr (job_attributes_of 5 (PyList [PyStr ''job-printing'']))
       else if i = PyInt 8 then Inr (job_attributes_of 9 (PyList [PyStr ''none'']))
       else if i = PyInt 9 then Inr (job_attributes_of 10 (PyList [PyStr ''none'']))
       else Inl not_found),
     cancelJob = (\<lambda>i. if i = PyInt 7 then Inr () else Inl not_found),
     restartJob = (\<lambda>i. if i = PyInt 8 then Inr () else Inl not_found),
     getPrinterAttributes = (\<lambda>n.
       if n = ''office'' then Inr (printer_attributes_of n 4 (PyList [PyStr ''paused'']))
       else if n = ''lab'' then Inr (printer_attributes_of n 3 (PyList [PyStr ''none'']))
       else if n = ''attic'' then Inr (printer_attributes_of n 6 (PyList [PyStr ''none'']))
       else Inl not_found),
     deletePrinter = (\<lambda>n. Inr ()),
     disablePrinter = (\<lambda>n. Inr ()),
     enablePrinter = (\<lambda>n. Inr ()),
     printFile = (\<lambda>n filename title options. Inr 10)\<rparr>"

definition office :: world where
  "office = \<lparr>conn = office_connection, calls = []\<rparr>"

text \<open>The same server when it refuses to answer attribute queries.\<close>

definition office_unavailable :: world where
  "office_unavailable =
    \<lparr>conn = office_connection
       \<lparr>getPrinterAttributes := (\<lambda>n. Inl (IPPError 1282 ''server-error-service-unavailable''))\<rparr>,
     calls = []\<rparr>"

text \<open>The same server when it is not running: no connection opens.\<close>

definition office_down :: world where
  "office_down =
    \<lparr>conn = office_connection
       \<lparr>Connection := Inl (RuntimeError ''failed to connect to server'')\<rparr>,
     calls = []\<rparr>"

text \<open>The job object \<^verbatim>\<open>Job(k)\<close> builds.\<close>

definition new_job :: "int \<Rightarrow> job" where
  "new_job k = \<lparr>job_id = PyInt k, job_attributes = None\<rparr>"

text \<open>The printer object \<^verbatim>\<open>Printer('lab')\<close> builds on the example server.\<close>

definition lab_printer :: printer where
  "lab_printer =
    \<lparr>name = ''lab'', printer_job_id = None,
     printer_attributes = Some (printer_attributes_of ''lab'' 3 (PyList [PyStr ''none''])),
     device_uri = PyStr ''ipp://lab.example/ipp/print'', location = PyStr ''Room 12'',
     default_message = ''Unable to locate the printer.''\<rparr>"

text \<open>The printer object for a queue name the server does not list.\<close>

definition ghost :: printer where
  "ghost = \<lparr>name = ''ghost'', printer_job_id = None, printer_attributes = None,
            device_uri = PyNone, location = PyNone,
            default_message = ''Unable to locate the printer.''\<rparr>"

section \<open>Facts about the built-ins\<close>

lemma digit_char_is_digit: "d < 10 \<Longrightarrow> is_digit (digit_char d)"
proof -
  assume "d < 10"
  then have "d \<in> {0,1,2,3,4,5,6,7,8,9}" by auto
  then show ?thesis by (auto simp: is_digit_def digit_char_def)
qed

lemma digit_val_digit_char: "d < 10 \<Longrightarrow> digit_val (digit_char d) = d"
proof -
  assume "d < 10"
  then have "d \<in> {0,1,2,3,4,5,6,7,8,9}" by auto
  then show ?thesis by (auto simp: digit_val_def digit_char_def)
qed

lemma digit_char_zero: "d < 10 \<Longrightarrow> digit_char d = CHR ''0'' \<longleftrightarrow> d = 0"
proof -
  assume "d < 10"
  then have "d \<in> {0,1,2,3,4,5,6,7,8,9}" by auto
  then show ?thesis by (auto simp: digit_char_def)
qed

lemma str_nat_digits: "\<forall>c\<in>set (str_nat n). is_digit c"
proof (induction n rule: str_nat.induct)
  case (1 n)
  show ?case
  proof (cases "n < 10")
    case True
    then show ?thesis by (subst str_nat.simps) (simp add: digit_char_is_digit)
  next
    case False
    with 1 show ?thesis by (subst str_nat.simps) (simp add: digit_char_is_digit)
  qed
qed

lemma str_nat_nonempty: "str_nat n \<noteq> []"
  by (subst str_nat.simps) simp

lemma nat_of_digits_snoc: "nat_of_digits (ds @ [c]) = 10 * nat_of_digits ds + digit_val c"
  by (simp add: nat_of_digits_def)

lemma nat_of_digits_str_nat: "nat_of_digits (str_nat n) = n"
proof (induction n rule: str_nat.induct)
  case (1 n)
  show ?case
  proof (cases "n < 10")
    case True
    then show ?thesis by (subst str_nat.simps) (simp add: nat_of_digits_def digit_val_digit_char)
  next
    case False
    with 1 show ?thesis
      by (subst str_nat.simps) (simp add: nat_of_digits_snoc digit_val_digit_char)
  qed
qed

lemma hd_str_nat: "0 < n \<Longrightarrow> hd (str_nat n) \<noteq> CHR ''0''"
proof (induction n rule: str_nat.induct)
  case (1 n)
  show ?case
  proof (cases "n < 10")
    case True
    with 1 show ?thesis by (subst str_nat.simps) (simp add: digit_char_zero)
  next
    case False
    then have "0 < n div 10" by simp
    with 1 False show ?thesis by (subst str_nat.simps) (simp add: str_nat_nonempty)
  qed
qed

lemma digits_ok_all: "ds \<noteq> [] \<Longrightarrow> \<forall>c\<in>set ds. is_digit c \<Longrightarrow> digits_ok ds"
proof (induction ds rule: digits_ok.induct)
  case (3 c d r)
  then have "d \<noteq> CHR ''_''" by (auto simp: is_digit_def)
  with 3 show ?case by simp
qed simp_all

lemma is_digit_not_space: "is_digit c \<Longrightarrow> \<not> is_space c"
  by (auto simp: is_digit_def is_space_def)

lemma is_digit_not_sign:
  "is_digit c \<Longrightarrow> c \<noteq> CHR ''+'' \<and> c \<noteq> CHR ''-'' \<and> c \<noteq> CHR ''c''"
  by (auto simp: is_digit_def)

text \<open>\<^verbatim>\<open>int\<close> reads a plain run of digits as the number it writes.\<close>

lemma py_int_digits:
  assumes "ds \<noteq> []" and "\<forall>c\<in>set ds. is_digit c"
  shows "py_int ds = Inr (int (nat_of_digits ds))"
proof -
  obtain c r where ds: "ds = c # r" using assms(1) by (cases ds) auto
  have c: "is_digit c" using assms(2) ds by simp
  have t: "dropWhile is_space ds = ds" using c ds by (simp add: is_digit_not_space)
  have tk: "takeWhile (\<lambda>c. is_digit c \<or> c = CHR ''_'') ds = ds"
    using assms(2) by simp
  have dr: "dropWhile (\<lambda>c. is_digit c \<or> c = CHR ''_'') ds = []"
    using assms(2) by simp
  have fl: "filter is_digit ds = ds" using assms(2) by (simp add: filter_id_conv)
  have ok: "digits_ok ds" using assms by (rule digits_ok_all)
  have sg: "c \<noteq> CHR ''+''" "c \<noteq> CHR ''-''" using is_digit_not_sign [OF c] by simp_all
  show ?thesis
    unfolding py_int_def t
    using sg ok tk dr fl by (simp add: ds Let_def)
qed

lemma py_int_error: "py_int s = Inl e \<Longrightarrow> is_ValueError e"
  by (auto simp: py_int_def Let_def split: if_splits)

section \<open>Facts about \<^verbatim>\<open>job_number\<close> and \<^verbatim>\<open>Job.list\<close>\<close>

lemma job_number_loop_spec:
  "\<forall>c\<in>set pre. c = CHR ''c'' \<or> c = CHR ''0'' \<Longrightarrow>
   job_number_loop (pre @ xs) (length pre) xs = job_number_spec (pre @ xs)"
proof (induction xs arbitrary: pre)
  case Nil
  then show ?case by (simp add: job_number_spec_def)
next
  case (Cons x xs)
  show ?case
  proof (cases "x = CHR ''c'' \<or> x = CHR ''0''")
    case True
    from Cons.prems True have "\<forall>c\<in>set (pre @ [x]). c = CHR ''c'' \<or> c = CHR ''0''" by auto
    from Cons.IH [OF this] True show ?thesis by auto
  next
    case False
    have "dropWhile (\<lambda>c. c = CHR ''c'' \<or> c = CHR ''0'') (pre @ x # xs) = x # xs"
      using Cons.prems False by (simp add: dropWhile_append3)
    then show ?thesis using False by (simp add: job_number_spec_def)
  qed
qed

lemma job_number_eq_spec: "job_number filename = job_number_spec filename"
  using job_number_loop_spec [of "[]" filename] by (simp add: job_number_def)

lemma job_number_only_c0:
  "\<forall>c\<in>set filename. c = CHR ''c'' \<or> c = CHR ''0'' \<Longrightarrow> job_number filename = Inr PyNone"
  by (simp add: job_number_eq_spec job_number_spec_def)

lemma job_number_error: "job_number filename = Inl e \<Longrightarrow> is_ValueError e"
  by (auto simp: job_number_eq_spec job_number_spec_def Let_def
           split: if_splits sum.splits dest: py_int_error)

text \<open>
  The scheduler names the control file of job \<open>n\<close> by \<^verbatim>\<open>c\<close> and the number padded
  with zeros; the routine reads the number back.
\<close>

lemma job_number_padded:
  assumes "0 < n"
  shows "job_number (CHR ''c'' # replicate k (CHR ''0'') @ str_nat n) = Inr (PyInt (int n))"
proof -
  let ?P = "\<lambda>c. c = CHR ''c'' \<or> c = CHR ''0''"
  obtain c r where s: "str_nat n = c # r"
    using str_nat_nonempty [of n] by (cases "str_nat n") auto
  have "is_digit c" using str_nat_digits [of n] s by simp
  moreover have "c \<noteq> CHR ''0''" using hd_str_nat [OF assms] s by simp
  ultimately have np: "\<not> ?P c" using is_digit_not_sign by auto
  have "dropWhile ?P (CHR ''c'' # replicate k (CHR ''0'') @ str_nat n) = str_nat n"
    using np by (simp add: s dropWhile_append3)
  then show ?thesis
    using py_int_digits [OF str_nat_nonempty str_nat_digits, of n]
    by (simp add: job_number_eq_spec job_number_spec_def str_nat_nonempty nat_of_digits_str_nat
             del: dropWhile.simps)
qed

lemma job_number_error_message:
  "job_number filename = Inl e \<Longrightarrow>
   e = ValueError (''invalid literal for int() with base 10: '' @
         take 200 (repr_str (dropWhile (\<lambda>c. c = CHR ''c'' \<or> c = CHR ''0'') filename)))"
  by (auto simp: job_number_eq_spec job_number_spec_def py_int_def Let_def
           split: if_splits sum.splits)

lemma conn_invoke [simp]: "conn (invoke c w) = conn w"
  by (simp add: invoke_def)

lemma Job_init_ok:
  "Connection (conn w) = Inr () \<Longrightarrow>
   Job_init i w = (Inr \<lparr>job_id = i, job_attributes = None\<rparr>, invoke Connect w)"
  by (simp add: Job_init_def BaseCUPS_init_def)

lemma Job_init_fails:
  "Connection (conn w) = Inl x \<Longrightarrow> Job_init i w = (Inl x, invoke Connect w)"
  by (simp add: Job_init_def BaseCUPS_init_def)

lemma Job_list_loop_ok:
  "Connection (conn w) = Inr () \<Longrightarrow> \<forall>f\<in>set fs. \<not> isl (job_number f) \<Longrightarrow>
   fst (Job_list_loop fs w) =
     Inr (map (\<lambda>f. \<lparr>job_id = projr (job_number f), job_attributes = None\<rparr>) fs)"
proof (induction fs arbitrary: w)
  case Nil
  then show ?case by simp
next
  case (Cons f fs)
  from Cons.prems obtain i where i: "job_number f = Inr i" by (cases "job_number f") auto
  have c: "Connection (conn (invoke Connect w)) = Inr ()" using Cons.prems(1) by simp
  from Cons.prems have "\<forall>g\<in>set fs. \<not> isl (job_number g)" by simp
  from Cons.IH [OF c this] show ?case
    by (cases "Job_list_loop fs (invoke Connect w)")
       (simp add: i Job_init_ok [OF Cons.prems(1)])
qed

lemma Job_list_loop_error:
  "Connection (conn w) = Inr () \<Longrightarrow> \<forall>g\<in>set pre. \<not> isl (job_number g) \<Longrightarrow>
   job_number f = Inl e \<Longrightarrow> fst (Job_list_loop (pre @ f # post) w) = Inl e"
proof (induction pre arbitrary: w)
  case Nil
  then show ?case by simp
next
  case (Cons g pre)
  from Cons.prems obtain i where i: "job_number g = Inr i" by (cases "job_number g") auto
  have c: "Connection (conn (invoke Connect w)) = Inr ()" using Cons.prems(1) by simp
  from Cons.prems have "\<forall>h\<in>set pre. \<not> isl (job_number h)" by simp
  from Cons.IH [OF c this Cons.prems(3)] show ?case
    by (cases "Job_list_loop (pre @ f # post) (invoke Connect w)")
       (simp add: i Job_init_ok [OF Cons.prems(1)])
qed

lemma Job_list_loop_down:
  "Connection (conn w) = Inl x \<Longrightarrow>
   fst (Job_list_loop (f # fs) w) = (case job_number f of Inl e \<Rightarrow> Inl e | Inr i \<Rightarrow> Inl x)"
  by (simp add: Job_init_fails split: sum.splits)

section \<open>Facts about the operations\<close>

lemmas conn_defs = conn_getDefault_def conn_getPrinters_def conn_getJobAttributes_def
  conn_cancelJob_def conn_restartJob_def conn_getPrinterAttributes_def conn_deletePrinter_def
  conn_disablePrinter_def conn_enablePrinter_def conn_printFile_def

lemma status_body_known:
  "map_of states c = Some s \<Longrightarrow>
   status_body states (PyInt c) r =
     Inr (PyStr (if r = PyList [PyStr ''none''] then s else s @ '' - '' @ py_str r))"
  by (simp add: status_body_def)

lemma status_body_unknown:
  "map_of states c = None \<Longrightarrow>
   status_body states (PyInt c) r =
     (if r = PyList [PyStr ''none''] then Inr PyNone else Inl TypeError)"
  by (simp add: status_body_def)

lemma status_body_not_KeyError: "status_body states state reasons \<noteq> Inl (KeyError k)"
proof -
  have g: "dict_get states state \<noteq> Inl (KeyError k)"
    by (cases state) (auto split: option.splits)
  have a: "py_add s t \<noteq> Inl (KeyError k)" for s t
    by (cases "(s, t)" rule: py_add.cases) auto
  show ?thesis
    using g a by (auto simp: status_body_def split: sum.splits)
qed

lemma except_KeyError_id:
  "(\<And>k. r \<noteq> Inl (KeyError k)) \<Longrightarrow> except_KeyError r = r"
  by (cases r) (auto simp: except_KeyError_def elim: is_KeyError.elims)

lemma except_status_body: "except_KeyError (status_body states state reasons) = status_body states state reasons"
  by (rule except_KeyError_id) (rule status_body_not_KeyError)

lemma subscript_error: "subscript a k = Inl e \<Longrightarrow> e = KeyError k"
  by (auto simp: subscript_def split: option.splits)

lemma status_body_error: "status_body states st r = Inl e \<Longrightarrow> e = TypeError"
proof -
  assume h: "status_body states st r = Inl e"
  have g: "dict_get states st = Inl x \<Longrightarrow> x = TypeError" for x
    by (cases st) (auto split: option.splits)
  have a: "py_add s t = Inl x \<Longrightarrow> x = TypeError" for s t x
    by (cases "(s, t)" rule: py_add.cases) auto
  from h show ?thesis
    by (auto simp: status_body_def split: sum.splits if_splits dest: g a)
qed

lemma Printer_valid_fst:
  "getPrinters (conn w) = Inr ps \<Longrightarrow> Printer_valid p w = (Inr (name p \<in> set ps), invoke GetPrinters w)"
  by (simp add: Printer_valid_def conn_defs)

lemma Job_status_ok:
  assumes "getJobAttributes (conn w) (job_id j) = Inr a"
    and "a ''job-state'' = Some st" and "a ''job-state-reasons'' = Some r"
  shows "Job_status j w = (status_body job_states st r, j\<lparr>job_attributes := Some a\<rparr>, invoke (GetJobAttributes (job_id j)) w)"
  using assms by (simp add: Job_status_def conn_defs subscript_def except_status_body)

lemma Printer_status_ok:
  assumes "getPrinters (conn w) = Inr ps" and "name p \<in> set ps"
    and "getPrinterAttributes (conn w) (name p) = Inr b"
    and "b ''printer-state'' = Some st" and "b ''printer-state-reasons'' = Some r"
  shows "fst (Printer_status p w) = status_body printer_states st r"
  using assms by (simp add: Printer_status_def Printer_valid_fst conn_defs subscript_def except_status_body)

lemma job_states_map:
  "(c, s) \<in> set [(3, ''Pending''), (4, ''Pending-held''), (5, ''Processing''),
     (6, ''Processing-stopped''), (7, ''Canceled''), (8, ''Aborted''), (9::int, ''Completed'')]
   \<Longrightarrow> map_of job_states c = Some s"
  by (auto simp: job_states_def)

lemma printer_states_map:
  "(c, s) \<in> set [(3, ''Idle''), (4, ''Processing''), (5::int, ''Stopped'')]
   \<Longrightarrow> map_of printer_states c = Some s"
  by (auto simp: printer_states_def)

lemma job_states_names:
  "map_of job_states c = Some s \<Longrightarrow> s \<noteq> [] \<and> hd s \<noteq> CHR ''N''"
  by (auto simp: job_states_def split: if_splits)

lemma printer_states_names:
  "map_of printer_states c = Some s \<Longrightarrow> s \<noteq> [] \<and> hd s \<noteq> CHR ''N''"
  by (auto simp: printer_states_def split: if_splits)

lemma job_states_unknown: "c < 3 \<or> 9 < c \<Longrightarrow> map_of job_states c = None"
  by (auto simp: job_states_def)

lemma printer_states_unknown: "c < 3 \<or> 5 < c \<Longrightarrow> map_of printer_states c = None"
  by (auto simp: printer_states_def)

lemma status_body_not_detected:
  assumes "\<And>c s. map_of states c = Some s \<Longrightarrow> s \<noteq> [] \<and> hd s \<noteq> CHR ''N''"
  shows "status_body states st r \<noteq> Inr (PyStr ''Not detected.'')"
proof
  assume h: "status_body states st r = Inr (PyStr ''Not detected.'')"
  have k: "\<exists>c s t. map_of states c = Some s \<and> ''Not detected.'' = s @ t"
  proof (cases st)
    case (PyInt c)
    show ?thesis
    proof (cases "map_of states c")
      case None
      with h PyInt show ?thesis by (simp add: status_body_def split: if_splits)
    next
      case (Some s)
      with h PyInt have "''Not detected.'' = s \<or> ''Not detected.'' = s @ '' - '' @ py_str r"
        by (auto simp: status_body_def split: if_splits)
      with Some show ?thesis by (metis append_Nil2)
    qed
  qed (use h in \<open>simp_all add: status_body_def split: if_splits\<close>)
  then obtain c s t where m: "map_of states c = Some s" and e: "''Not detected.'' = s @ t" by blast
  from assms [OF m] have "s \<noteq> []" "hd s \<noteq> CHR ''N''" by simp_all
  then have "hd (s @ t) \<noteq> CHR ''N''" by simp
  with e show False by (metis list.sel(1))
qed

lemma Job_status_not_detected: "fst (Job_status j w) \<noteq> Inr (PyStr ''Not detected.'')"
  using status_body_not_detected [of job_states, OF job_states_names]
  by (auto simp: Job_status_def conn_defs Let_def except_status_body split: sum.splits)

lemma Printer_status_not_detected:
  "fst (Printer_valid p w) = Inr True \<Longrightarrow> fst (Printer_status p w) \<noteq> Inr (PyStr ''Not detected.'')"
  using status_body_not_detected [of printer_states, OF printer_states_names]
  by (auto simp: Printer_status_def conn_defs Let_def except_status_body split: sum.splits prod.splits)

lemma is_IPPError_not_JobNotFound:
  "\<not> is_IPPError e \<Longrightarrow> e \<noteq> JobNotFoundError m \<and> e \<noteq> JobCompletedError m \<and> e \<noteq> JobDocumentNotAvailableError m"
  by (cases e) auto

lemma Job_status_raises:
  "fst (Job_status j w) = Inl (JobNotFoundError m) \<longleftrightarrow>
   (\<exists>e. getJobAttributes (conn w) (job_id j) = Inl e \<and> is_IPPError e) \<and>
   m = ''Job '' @ py_str (job_id j) @ '' does not exist.''"
proof (cases "getJobAttributes (conn w) (job_id j)")
  case (Inl e)
  then show ?thesis
    using is_IPPError_not_JobNotFound [of e m]
    by (auto simp: Job_status_def conn_defs)
next
  case (Inr a)
  then show ?thesis
    by (auto simp: Job_status_def conn_defs Let_def except_status_body
             split: sum.splits dest!: subscript_error status_body_error)
qed

lemma Job_cancel_raises:
  "fst (Job_cancel j w) = Inl (JobCompletedError m) \<longleftrightarrow>
   (\<exists>e. cancelJob (conn w) (job_id j) = Inl e \<and> is_IPPError e) \<and>
   m = ''Job '' @ py_str (job_id j) @ '' has been completed.''"
proof (cases "cancelJob (conn w) (job_id j)")
  case (Inl e)
  then show ?thesis
    using is_IPPError_not_JobNotFound [of e m]
    by (auto simp: Job_cancel_def conn_defs)
next
  case (Inr a)
  then show ?thesis by (auto simp: Job_cancel_def conn_defs)
qed

lemma Job_restart_raises:
  "fst (Job_restart j w) = Inl (JobDocumentNotAvailableError m) \<longleftrightarrow>
   (\<exists>e. restartJob (conn w) (job_id j) = Inl e \<and> is_IPPError e) \<and>
   m = ''Job's '' @ py_str (job_id j) @ '' document does not exist.''"
proof (cases "restartJob (conn w) (job_id j)")
  case (Inl e)
  then show ?thesis
    using is_IPPError_not_JobNotFound [of e m]
    by (auto simp: Job_restart_def conn_defs)
next
  case (Inr a)
  then show ?thesis by (auto simp: Job_restart_def conn_defs)
qed

lemma Printer_validate_missing:
  "getPrinters (conn w) = Inr ps \<Longrightarrow> name p \<notin> set ps \<Longrightarrow>
   Printer_validate p w = (Inl (NotImplementedError (default_message p)), invoke GetPrinters w)"
  by (simp add: Printer_validate_def Printer_valid_fst)

lemma Printer_validate_listed:
  "getPrinters (conn w) = Inr ps \<Longrightarrow> name p \<in> set ps \<Longrightarrow>
   Printer_validate p w = (Inr (), invoke GetPrinters w)"
  by (simp add: Printer_validate_def Printer_valid_fst)

lemma name_setter_listed:
  assumes "getPrinters (conn w) = Inr ps" and "n \<in> set ps"
    and "getPrinterAttributes (conn w) n = Inr a"
    and "a ''device-uri'' = Some u" and "a ''printer-location'' = Some l"
  shows "Printer_name_setter n p w =
    (Inr (), p\<lparr>name := n, printer_attributes := Some a, device_uri := u, location := l\<rparr>,
     invoke (GetPrinterAttributes n) (invoke GetPrinters w))"
  using assms
  by (simp add: Printer_name_setter_def Printer_valid_fst conn_defs subscript_def Let_def)

lemma name_setter_missing:
  assumes "getPrinters (conn w) = Inr ps" and "n \<notin> set ps"
  shows "Printer_name_setter n p w = (Inr (), p\<lparr>name := n\<rparr>, invoke GetPrinters w)"
  using assms
  by (simp add: Printer_name_setter_def Printer_valid_fst Let_def)

lemma Printer_init_conn [simp]: "conn (snd (Printer_init n w)) = conn w"
  by (auto simp: Printer_init_def BaseCUPS_init_def Printer_name_setter_def Printer_valid_def
        conn_defs Let_def split: sum.splits prod.splits)

lemma Printer_init_listed:
  assumes "Connection (conn w) = Inr ()" and "getPrinters (conn w) = Inr ps" and "n \<in> set ps"
    and "getPrinterAttributes (conn w) n = Inr a"
    and "a ''device-uri'' = Some u" and "a ''printer-location'' = Some l"
  shows "fst (Printer_init n w) =
    Inr \<lparr>name = n, printer_job_id = None, printer_attributes = Some a, device_uri = u,
         location = l, default_message = ''Unable to locate the printer.''\<rparr>"
proof -
  have "getPrinters (conn (invoke Connect w)) = Inr ps"
    "getPrinterAttributes (conn (invoke Connect w)) n = Inr a"
    using assms by simp_all
  from name_setter_listed [OF this(1) assms(3) this(2) assms(5,6)] assms(1)
  show ?thesis by (simp add: Printer_init_def BaseCUPS_init_def)
qed

lemma Printer_init_missing:
  assumes "Connection (conn w) = Inr ()" and "getPrinters (conn w) = Inr ps" and "n \<notin> set ps"
  shows "fst (Printer_init n w) =
    Inr \<lparr>name = n, printer_job_id = None, printer_attributes = None, device_uri = PyNone,
         location = PyNone, default_message = ''Unable to locate the printer.''\<rparr>"
proof -
  have "getPrinters (conn (invoke Connect w)) = Inr ps" using assms by simp
  from name_setter_missing [OF this assms(3)] assms(1)
  show ?thesis by (simp add: Printer_init_def BaseCUPS_init_def)
qed

lemma Printer_init_returns:
  assumes "init_error (conn w) n = None"
  shows "\<exists>p. fst (Printer_init n w) = Inr p \<and> name p = n"
proof -
  from assms have c: "Connection (conn w) = Inr ()"
    by (auto simp: init_error_def split: sum.splits)
  from assms obtain ps where ps: "getPrinters (conn w) = Inr ps"
    by (auto simp: init_error_def split: sum.splits)
  show ?thesis
  proof (cases "n \<in> set ps")
    case True
    with assms c ps obtain a u l where "getPrinterAttributes (conn w) n = Inr a"
      "a ''device-uri'' = Some u" "a ''printer-location'' = Some l"
      by (auto simp: init_error_def split: sum.splits if_splits)
    from Printer_init_listed [OF c ps True this] show ?thesis by simp
  next
    case False
    from Printer_init_missing [OF c ps False] show ?thesis by simp
  qed
qed

lemma Printer_init_raises:
  assumes "init_error (conn w) n = Some e"
  shows "fst (Printer_init n w) = Inl e"
  using assms
  by (auto simp: init_error_def Printer_init_def BaseCUPS_init_def Printer_name_setter_def
        Printer_valid_def conn_defs subscript_def Let_def
        split: sum.splits option.splits if_splits)

lemma get_printers_loop_ok:
  "\<forall>n\<in>set ns. init_error (conn w) n = None \<Longrightarrow>
   \<exists>qs. fst (get_printers_loop ns w) = Inr qs \<and> map name qs = ns"
proof (induction ns arbitrary: w)
  case Nil
  then show ?case by simp
next
  case (Cons n ns)
  from Cons.prems obtain p where p: "fst (Printer_init n w) = Inr p" "name p = n"
    using Printer_init_returns [of w n] by auto
  obtain w1 where w1: "Printer_init n w = (Inr p, w1)" using p by (cases "Printer_init n w") auto
  then have "conn w1 = conn w" using Printer_init_conn [of n w] by simp
  with Cons.prems have "\<forall>m\<in>set ns. init_error (conn w1) m = None" by simp
  from Cons.IH [OF this] obtain qs where "fst (get_printers_loop ns w1) = Inr qs" "map name qs = ns"
    by blast
  with w1 p show ?case by (auto split: prod.splits)
qed

lemma get_printers_loop_error:
  "\<forall>x\<in>set pre. init_error (conn w) x = None \<Longrightarrow> init_error (conn w) m = Some e \<Longrightarrow>
   fst (get_printers_loop (pre @ m # post) w) = Inl e"
proof (induction pre arbitrary: w)
  case Nil
  from Printer_init_raises [OF Nil(2)] show ?case by (auto split: prod.splits sum.splits)
next
  case (Cons n pre)
  from Cons.prems obtain p where p: "fst (Printer_init n w) = Inr p"
    using Printer_init_returns [of w n] by auto
  obtain w1 where w1: "Printer_init n w = (Inr p, w1)" using p by (cases "Printer_init n w") auto
  then have c: "conn w1 = conn w" using Printer_init_conn [of n w] by simp
  with Cons.prems have "\<forall>x\<in>set pre. init_error (conn w1) x = None"
    "init_error (conn w1) m = Some e" by simp_all
  from Cons.IH [OF this] w1 show ?case by (auto split: prod.splits sum.splits)
qed

section \<open>Facts about the example server\<close>

lemma office_conn [simp]: "conn office = office_connection"
  by (simp add: office_def)

lemma office_getPrinters [simp]: "getPrinters office_connection = Inr [''office'', ''lab'', ''attic'']"
  by (simp add: office_connection_def)

lemma office_getDefault [simp]: "getDefault office_connection = Inr (Some ''office'')"
  by (simp add: office_connection_def)

lemma office_getJobAttributes:
  "getJobAttributes office_connection (PyInt 7) = Inr (job_attributes_of 5 (PyList [PyStr ''job-printing'']))"
  "getJobAttributes office_connection (PyInt 8) = Inr (job_attributes_of 9 (PyList [PyStr ''none'']))"
  "getJobAttributes office_connection (PyInt 9) = Inr (job_attributes_of 10 (PyList [PyStr ''none'']))"
  "getJobAttributes office_connection (PyInt 11) = Inl not_found"
  by (simp_all add: office_connection_def)

lemma office_getPrinterAttributes:
  "getPrinterAttributes office_connection ''office'' = Inr (printer_attributes_of ''office'' 4 (PyList [PyStr ''paused'']))"
  "getPrinterAttributes office_connection ''lab'' = Inr (printer_attributes_of ''lab'' 3 (PyList [PyStr ''none'']))"
  "getPrinterAttributes office_connection ''attic'' = Inr (printer_attributes_of ''attic'' 6 (PyList [PyStr ''none'']))"
  "getPrinterAttributes office_connection ''ghost'' = Inl not_found"
  by (simp_all add: office_connection_def)

lemma job_attributes_of_simps [simp]:
  "job_attributes_of st r ''job-state'' = Some (PyInt st)"
  "job_attributes_of st r ''job-state-reasons'' = Some r"
  by (simp_all add: job_attributes_of_def)

lemma printer_attributes_of_simps [simp]:
  "printer_attributes_of n st r ''printer-state'' = Some (PyInt st)"
  "printer_attributes_of n st r ''printer-state-reasons'' = Some r"
  "printer_attributes_of n st r ''device-uri'' = Some (PyStr (''ipp://'' @ n @ ''.example/ipp/print''))"
  "printer_attributes_of n st r ''printer-location'' = Some (PyStr ''Room 12'')"
  by (simp_all add: printer_attributes_of_def)

lemma py_str_reasons:
  "repr_str ''job-printing'' = [CHR 0x27] @ ''job-printing'' @ [CHR 0x27]"
  "repr_str ''paused'' = [CHR 0x27] @ ''paused'' @ [CHR 0x27]"
  by (simp_all add: repr_str_def repr_char_def printable_def Let_def)

lemma py_str_11: "py_str (PyInt 11) = ''11''"
  by (simp add: str_int_def str_nat.simps digit_char_def)

lemma office_Connection [simp]: "Connection office_connection = Inr ()"
  by (simp add: office_connection_def)

lemma office_init_error:
  "init_error office_connection ''office'' = None" "init_error office_connection ''lab'' = None"
  "init_error office_connection ''attic'' = None" "init_error office_connection ''ghost'' = None"
  by (simp_all add: init_error_def office_getPrinterAttributes)

lemma Job_init_office: "fst (Job_init (PyInt k) office) = Inr (new_job k)"
  by (simp add: Job_init_ok new_job_def)

lemma Printer_init_lab: "fst (Printer_init ''lab'' office) = Inr lab_printer"
  using Printer_init_listed [of office "[''office'', ''lab'', ''attic'']" "''lab''"
          "printer_attributes_of ''lab'' 3 (PyList [PyStr ''none''])"
          "PyStr ''ipp://lab.example/ipp/print''" "PyStr ''Room 12''"]
  by (simp add: office_getPrinterAttributes lab_printer_def)

lemmas int_defs = py_int_def is_space_def is_digit_def nat_of_digits_def digit_val_def Let_def

lemma job_number_c00007: "job_number ''c00007'' = Inr (PyInt 7)" by (simp add: job_number_def int_defs)

lemma job_number_c00100: "job_number ''c00100'' = Inr (PyInt 100)" by (simp add: job_number_def int_defs)

lemma job_number_c000: "job_number ''c000'' = Inr PyNone" by (simp add: job_number_def int_defs)

lemma glob_c_example: "glob_c [''c00007'', ''d00007-001'', ''tmp'', ''c00100'', ''c000''] = [''c00007'', ''c00100'', ''c000'']"
  by (simp add: glob_c_def)

section \<open>Status-code translation\<close>

text \<open>
  Claim C1. A job whose attributes hold a \<^verbatim>\<open>job-state\<close> code from 3 to 9 has the status
  string of that code, and a listed printer whose attributes hold a \<^verbatim>\<open>printer-state\<close>
  code from 3 to 5 has the status string of that one. When the state reasons are not
  exactly \<^verbatim>\<open>['none']\<close>, the status is the string, then \<^verbatim>\<open>' - '\<close>, then the reasons as
  \<^verbatim>\<open>format\<close> writes them.
\<close>

theorem status_code_translation:
  "(getJobAttributes (conn w) (job_id j) = Inr a \<and> a ''job-state'' = Some (PyInt c) \<and>
    (c, s) \<in> set [(3, ''Pending''), (4, ''Pending-held''), (5, ''Processing''),
                   (6, ''Processing-stopped''), (7, ''Canceled''), (8, ''Aborted''),
                   (9, ''Completed'')] \<and>
    a ''job-state-reasons'' = Some r
    \<longrightarrow> fst (Job_status j w) =
          Inr (PyStr (if r = PyList [PyStr ''none''] then s else s @ '' - '' @ py_str r)))
   \<and>
   (getPrinters (conn w) = Inr ps \<and> name p \<in> set ps \<and>
    getPrinterAttributes (conn w) (name p) = Inr b \<and> b ''printer-state'' = Some (PyInt c') \<and>
    (c', s') \<in> set [(3, ''Idle''), (4, ''Processing''), (5, ''Stopped'')] \<and>
    b ''printer-state-reasons'' = Some r'
    \<longrightarrow> fst (Printer_status p w) =
          Inr (PyStr (if r' = PyList [PyStr ''none''] then s' else s' @ '' - '' @ py_str r')))"
proof (intro conjI impI)
  assume h: "getJobAttributes (conn w) (job_id j) = Inr a \<and> a ''job-state'' = Some (PyInt c) \<and>
    (c, s) \<in> set [(3, ''Pending''), (4, ''Pending-held''), (5, ''Processing''),
                   (6, ''Processing-stopped''), (7, ''Canceled''), (8, ''Aborted''),
                   (9, ''Completed'')] \<and>
    a ''job-state-reasons'' = Some r"
  then have "map_of job_states c = Some s" by (intro job_states_map) simp
  then show "fst (Job_status j w) =
          Inr (PyStr (if r = PyList [PyStr ''none''] then s else s @ '' - '' @ py_str r))"
    using h by (simp add: Job_status_ok status_body_known)
next
  assume h: "getPrinters (conn w) = Inr ps \<and> name p \<in> set ps \<and>
    getPrinterAttributes (conn w) (name p) = Inr b \<and> b ''printer-state'' = Some (PyInt c') \<and>
    (c', s') \<in> set [(3, ''Idle''), (4, ''Processing''), (5, ''Stopped'')] \<and>
    b ''printer-state-reasons'' = Some r'"
  then have "map_of printer_states c' = Some s'" by (intro printer_states_map) simp
  then show "fst (Printer_status p w) =
          Inr (PyStr (if r' = PyList [PyStr ''none''] then s' else s' @ '' - '' @ py_str r'))"
    using h Printer_status_ok [of w ps p b "PyInt c'" r'] by (simp add: status_body_known)
qed

text \<open>
  Job 7 of the example server is printing; its queue \<^verbatim>\<open>lab\<close> is idle.
\<close>

theorem status_code_translation_witness:
  "fst (Job_status (new_job 7) office) = Inr (PyStr ''Processing - ['job-printing']'') \<and>
   fst (Printer_status (ghost\<lparr>name := ''lab''\<rparr>) office) = Inr (PyStr ''Idle'')"
  using
      status_code_translation [of office "new_job 7"
        "job_attributes_of 5 (PyList [PyStr ''job-printing''])" 5 "''Processing''"
        "PyList [PyStr ''job-printing'']" "[''office'', ''lab'', ''attic'']"
        "ghost\<lparr>name := ''lab''\<rparr>" "printer_attributes_of ''lab'' 3 (PyList [PyStr ''none''])"
        3 "''Idle''" "PyList [PyStr ''none'']"]
  by (simp add: new_job_def office_getJobAttributes office_getPrinterAttributes py_str_reasons)

section \<open>Job ids from control-file names\<close>

text \<open>
  Claim C2, as the code has it. \<^verbatim>\<open>job_number\<close> drops the leading run of \<^verbatim>\<open>c\<close> and
  \<^verbatim>\<open>0\<close> and hands all that is left to \<^verbatim>\<open>int\<close>: \<^verbatim>\<open>c00123\<close> gives 123, the name the
  scheduler writes for job \<open>n\<close> gives \<open>n\<close>, a name of \<^verbatim>\<open>c\<close> and \<^verbatim>\<open>0\<close> only
  gives \<^verbatim>\<open>None\<close>, and any other name raises the \<^verbatim>\<open>ValueError\<close> of \<^verbatim>\<open>int\<close> on what is
  left of it. \<^verbatim>\<open>Job.list\<close> returns one job per entry whose name starts with \<^verbatim>\<open>c\<close>,
  carrying the extracted id, when \<^verbatim>\<open>int\<close> accepts what is left of every such name and
  the connection each job opens is answered. Otherwise it raises: with a scheduler that
  answers, the \<^verbatim>\<open>ValueError\<close> of the first name that \<^verbatim>\<open>int\<close> refuses; with none, the
  \<^verbatim>\<open>ValueError\<close> of the first entry or else the error of the connection.
\<close>

theorem job_number_and_list:
  "job_number filename = job_number_spec filename \<and>
   job_number ''c00123'' = Inr (PyInt 123) \<and>
   ((\<forall>c\<in>set filename. c = CHR ''c'' \<or> c = CHR ''0'') \<longrightarrow> job_number filename = Inr PyNone) \<and>
   (0 < n \<longrightarrow> job_number (CHR ''c'' # replicate k (CHR ''0'') @ str_nat n) = Inr (PyInt (int n))) \<and>
   (job_number filename = Inl e \<longrightarrow>
      e = ValueError (''invalid literal for int() with base 10: '' @
            take 200 (repr_str (dropWhile (\<lambda>c. c = CHR ''c'' \<or> c = CHR ''0'') filename)))) \<and>
   (Connection (conn w) = Inr () \<and> (\<forall>f\<in>set (glob_c spooldir). \<not> isl (job_number f)) \<longrightarrow>
      fst (Job_list spooldir w) =
        Inr (map (\<lambda>f. \<lparr>job_id = projr (job_number f), job_attributes = None\<rparr>)
               (glob_c spooldir))) \<and>
   (Connection (conn w) = Inr () \<and> glob_c spooldir = pre @ bad # post \<and>
    (\<forall>f\<in>set pre. \<not> isl (job_number f)) \<and> job_number bad = Inl e'
    \<longrightarrow> fst (Job_list spooldir w) = Inl e') \<and>
   (Connection (conn w) = Inl x \<and> glob_c spooldir = first # others \<longrightarrow>
      fst (Job_list spooldir w) =
        (case job_number first of Inl v \<Rightarrow> Inl v | Inr i \<Rightarrow> Inl x)) \<and>
   (glob_c spooldir = [] \<longrightarrow> fst (Job_list spooldir w) = Inr [])"
proof (intro conjI impI)
  show "job_number filename = job_number_spec filename" by (rule job_number_eq_spec)
  show "job_number ''c00123'' = Inr (PyInt 123)"
    by (simp add: job_number_def int_defs)
next
  assume "\<forall>c\<in>set filename. c = CHR ''c'' \<or> c = CHR ''0''"
  then show "job_number filename = Inr PyNone" by (rule job_number_only_c0)
next
  assume "0 < n"
  then show "job_number (CHR ''c'' # replicate k (CHR ''0'') @ str_nat n) = Inr (PyInt (int n))"
    by (rule job_number_padded)
next
  assume "job_number filename = Inl e"
  then show "e = ValueError (''invalid literal for int() with base 10: '' @
            take 200 (repr_str (dropWhile (\<lambda>c. c = CHR ''c'' \<or> c = CHR ''0'') filename)))"
    by (rule job_number_error_message)
next
  assume "Connection (conn w) = Inr () \<and> (\<forall>f\<in>set (glob_c spooldir). \<not> isl (job_number f))"
  then show "fst (Job_list spooldir w) =
        Inr (map (\<lambda>f. \<lparr>job_id = projr (job_number f), job_attributes = None\<rparr>)
               (glob_c spooldir))"
    unfolding Job_list_def by (intro Job_list_loop_ok) simp_all
next
  assume "Connection (conn w) = Inr () \<and> glob_c spooldir = pre @ bad # post \<and>
    (\<forall>f\<in>set pre. \<not> isl (job_number f)) \<and> job_number bad = Inl e'"
  then show "fst (Job_list spooldir w) = Inl e'"
    unfolding Job_list_def using Job_list_loop_error [of w pre bad e' post] by simp
next
  assume "Connection (conn w) = Inl x \<and> glob_c spooldir = first # others"
  then show "fst (Job_list spooldir w) =
        (case job_number first of Inl v \<Rightarrow> Inl v | Inr i \<Rightarrow> Inl x)"
    unfolding Job_list_def using Job_list_loop_down [of w x first others] by simp
next
  assume "glob_c spooldir = []"
  then show "fst (Job_list spooldir w) = Inr []" by (simp add: Job_list_def)
qed

theorem job_number_and_list_witness:
  "job_number ''c000'' = Inr PyNone \<and>
   job_number ''c00042'' = Inr (PyInt 42) \<and>
   fst (Job_list [''c00007'', ''d00007-001'', ''tmp'', ''c00100'', ''c000''] office) =
     Inr [new_job 7, new_job 100, \<lparr>job_id = PyNone, job_attributes = None\<rparr>] \<and>
   fst (Job_list [''c00007'', ''c00012.O''] office) =
     Inl (ValueError (''invalid literal for int() with base 10: '' @
                      [CHR 0x27] @ ''12.O'' @ [CHR 0x27])) \<and>
   fst (Job_list [''c00007''] office_down) = Inl (RuntimeError ''failed to connect to server'') \<and>
   fst (Job_list [''d00007-001'', ''tmp''] office_down) = Inr []"
proof -
  let ?bad = "ValueError (''invalid literal for int() with base 10: '' @
                      [CHR 0x27] @ ''12.O'' @ [CHR 0x27])"
  have s: "CHR ''c'' # replicate 3 (CHR ''0'') @ str_nat 42 = ''c00042''"
    by (simp add: str_nat.simps digit_char_def numeral_3_eq_3)
  have e: "job_number ''c00012.O'' = Inl ?bad"
    by (simp add: job_number_def int_defs repr_str_def repr_char_def printable_def)
  have g: "glob_c [''c00007'', ''c00012.O''] = [''c00007''] @ ''c00012.O'' # []"
    "glob_c [''c00007''] = ''c00007'' # []" "glob_c [''d00007-001'', ''tmp''] = []"
    by (simp_all add: glob_c_def)
  have d: "Connection (conn office_down) = Inl (RuntimeError ''failed to connect to server'')"
    by (simp add: office_down_def)
  have a: "job_number ''c000'' = Inr PyNone \<and> job_number ''c00042'' = Inr (PyInt 42) \<and>
     fst (Job_list [''c00007'', ''d00007-001'', ''tmp'', ''c00100'', ''c000''] office) =
       Inr [new_job 7, new_job 100, \<lparr>job_id = PyNone, job_attributes = None\<rparr>]"
    using job_number_and_list [where filename = "''c000''" and n = 42 and k = 3 and w = office
        and spooldir = "[''c00007'', ''d00007-001'', ''tmp'', ''c00100'', ''c000'']"] s
    by (simp add: job_number_c00007 job_number_c00100 job_number_c000 glob_c_example new_job_def)
  have b: "fst (Job_list [''c00007'', ''c00012.O''] office) = Inl ?bad"
    using job_number_and_list [where w = office and spooldir = "[''c00007'', ''c00012.O'']"
        and pre = "[''c00007'']" and bad = "''c00012.O''" and post = "[]" and e' = ?bad] e g(1)
    by (simp add: job_number_c00007)
  have c: "fst (Job_list [''c00007''] office_down) = Inl (RuntimeError ''failed to connect to server'')"
    using job_number_and_list [where w = office_down and spooldir = "[''c00007'']"
        and first = "''c00007''" and others = "[]"
        and x = "RuntimeError ''failed to connect to server''"] d g(2)
    by (simp add: job_number_c00007)
  have f: "fst (Job_list [''d00007-001'', ''tmp''] office_down) = Inr []"
    using job_number_and_list [where w = office_down and spooldir = "[''d00007-001'', ''tmp'']"] g(3)
    by simp
  from a b c f show ?thesis by simp
qed

text \<open>
  Claim C2 as stated fails on a name whose rest is no integer literal: the entry
  \<^verbatim>\<open>c00012.O\<close> matches \<^verbatim>\<open>c*\<close>, and \<^verbatim>\<open>int('12.O')\<close> raises. It fails as well when
  no scheduler answers: \<^verbatim>\<open>Job(7)\<close> opens a connection, which raises.
\<close>

theorem job_list_rejects_suffix:
  "glob_c [''c00012.O''] = [''c00012.O''] \<and>
   job_number ''c00012.O'' =
     Inl (ValueError (''invalid literal for int() with base 10: '' @
                      [CHR 0x27] @ ''12.O'' @ [CHR 0x27])) \<and>
   fst (Job_list [''c00012.O''] office) =
     Inl (ValueError (''invalid literal for int() with base 10: '' @
                      [CHR 0x27] @ ''12.O'' @ [CHR 0x27])) \<and>
   glob_c [''c00007''] = [''c00007''] \<and>
   job_number ''c00007'' = Inr (PyInt 7) \<and>
   fst (Job_list [''c00007''] office_down) = Inl (RuntimeError ''failed to connect to server'')"
  by (simp add: Job_list_def glob_c_def job_number_def int_defs Job_init_def BaseCUPS_init_def
        office_down_def repr_str_def repr_char_def printable_def)

section \<open>Errors of the library, relabelled\<close>

text \<open>
  Claim C3. \<^verbatim>\<open>Job.status\<close> raises \<^verbatim>\<open>JobNotFoundError\<close> exactly when
  \<^verbatim>\<open>getJobAttributes\<close> raises the library's IPP error, \<^verbatim>\<open>Job.cancel\<close> raises
  \<^verbatim>\<open>JobCompletedError\<close> exactly when \<^verbatim>\<open>cancelJob\<close> does, and \<^verbatim>\<open>Job.restart\<close> raises
  \<^verbatim>\<open>JobDocumentNotAvailableError\<close> exactly when \<^verbatim>\<open>restartJob\<close> does. The exception
  raised holds one message, made of fixed words and the job id; nothing of the library's
  error is kept.
\<close>

theorem job_errors_relabelled:
  "((\<exists>m. fst (Job_status j w) = Inl (JobNotFoundError m)) \<longleftrightarrow>
      (\<exists>e. getJobAttributes (conn w) (job_id j) = Inl e \<and> is_IPPError e)) \<and>
   ((\<exists>m. fst (Job_cancel j w) = Inl (JobCompletedError m)) \<longleftrightarrow>
      (\<exists>e. cancelJob (conn w) (job_id j) = Inl e \<and> is_IPPError e)) \<and>
   ((\<exists>m. fst (Job_restart j w) = Inl (JobDocumentNotAvailableError m)) \<longleftrightarrow>
      (\<exists>e. restartJob (conn w) (job_id j) = Inl e \<and> is_IPPError e)) \<and>
   (\<forall>m. fst (Job_status j w) = Inl (JobNotFoundError m) \<longrightarrow>
      m = ''Job '' @ py_str (job_id j) @ '' does not exist.'') \<and>
   (\<forall>m. fst (Job_cancel j w) = Inl (JobCompletedError m) \<longrightarrow>
      m = ''Job '' @ py_str (job_id j) @ '' has been completed.'') \<and>
   (\<forall>m. fst (Job_restart j w) = Inl (JobDocumentNotAvailableError m) \<longrightarrow>
      m = ''Job's '' @ py_str (job_id j) @ '' document does not exist.'')"
  by (simp add: Job_status_raises Job_cancel_raises Job_restart_raises)

text \<open>
  The example server knows no job 11.
\<close>

theorem job_errors_relabelled_witness:
  "fst (Job_status (new_job 11) office) = Inl (JobNotFoundError ''Job 11 does not exist.'') \<and>
   fst (Job_cancel (new_job 11) office) = Inl (JobCompletedError ''Job 11 has been completed.'') \<and>
   fst (Job_restart (new_job 11) office) =
     Inl (JobDocumentNotAvailableError ''Job's 11 document does not exist.'')"
proof -
  let ?j = "new_job 11"
  note t = job_errors_relabelled [of ?j office]
  have i: "is_IPPError not_found" by (simp add: not_found_def)
  have "getJobAttributes (conn office) (job_id ?j) = Inl not_found"
    by (simp add: new_job_def office_connection_def)
  with i t obtain m1 where m1: "fst (Job_status ?j office) = Inl (JobNotFoundError m1)" by blast
  have "cancelJob (conn office) (job_id ?j) = Inl not_found"
    by (simp add: new_job_def office_connection_def)
  with i t obtain m2 where m2: "fst (Job_cancel ?j office) = Inl (JobCompletedError m2)" by blast
  have "restartJob (conn office) (job_id ?j) = Inl not_found"
    by (simp add: new_job_def office_connection_def)
  with i t obtain m3 where m3: "fst (Job_restart ?j office) = Inl (JobDocumentNotAvailableError m3)"
    by blast
  have id: "py_str (job_id ?j) = ''11''" by (simp add: new_job_def py_str_11 del: py_str.simps)
  from t m1 have "m1 = ''Job '' @ py_str (job_id ?j) @ '' does not exist.''" by blast
  moreover from t m2 have "m2 = ''Job '' @ py_str (job_id ?j) @ '' has been completed.''" by blast
  moreover from t m3 have "m3 = ''Job's '' @ py_str (job_id ?j) @ '' document does not exist.''"
    by blast
  ultimately show ?thesis using m1 m2 m3 by (simp add: id del: py_str.simps)
qed

text \<open>
  Claim C4 asks for \<^verbatim>\<open>PrinterNotFoundError\<close> from every operation on a printer the
  server does not list. \<^verbatim>\<open>validate\<close> raises \<^verbatim>\<open>NotImplementedError\<close> instead, in all six
  operations; \<^verbatim>\<open>PrinterNotFoundError\<close> is imported and never raised.
\<close>

theorem missing_printer_raises_NotImplementedError:
  "fst (Printer_init ''ghost'' office) = Inr ghost \<and>
   fst (Printer_delete ghost office) = Inl (NotImplementedError ''Unable to locate the printer.'') \<and>
   fst (Printer_disable ghost office) = Inl (NotImplementedError ''Unable to locate the printer.'') \<and>
   fst (Printer_enable ghost office) = Inl (NotImplementedError ''Unable to locate the printer.'') \<and>
   fst (Printer_print ''report.pdf'' ''Report'' [] ghost office) =
     Inl (NotImplementedError ''Unable to locate the printer.'') \<and>
   fst (Printer_add ghost office) = Inl (NotImplementedError ''Unable to locate the printer.'') \<and>
   fst (Printer_export_ppd ghost office) =
     Inl (NotImplementedError ''Unable to locate the printer.'')"
proof -
  have n: "name ghost \<notin> set [''office'', ''lab'', ''attic'']" by (simp add: ghost_def)
  have g: "getPrinters (conn office) = Inr [''office'', ''lab'', ''attic'']" by simp
  have v: "Printer_validate ghost office =
      (Inl (NotImplementedError ''Unable to locate the printer.''), invoke GetPrinters office)"
    using Printer_validate_missing [OF g n] by (simp add: ghost_def)
  have i: "fst (Printer_init ''ghost'' office) = Inr ghost"
    using Printer_init_missing [OF _ g, of "''ghost''"] by (simp add: ghost_def)
  show ?thesis
    using i by (simp add: v Printer_delete_def Printer_disable_def Printer_enable_def
      Printer_print_def Printer_add_def Printer_export_ppd_def)
qed

section \<open>Delegation\<close>

text \<open>
  Claim C5 asks \<^verbatim>\<open>CUPS.get_job_attributes\<close> to take a job id and return the
  connection's answer. The method declares no such parameter: with an argument the call
  raises \<^verbatim>\<open>TypeError\<close>, without one the body raises \<^verbatim>\<open>UnboundLocalError\<close>; the
  connection is not called in either case.
\<close>

theorem get_job_attributes_never_delegates:
  "CUPS_get_job_attributes [PyInt 7] w = (Inl TypeError, w) \<and>
   CUPS_get_job_attributes [PyStr ''seven''] w = (Inl TypeError, w) \<and>
   CUPS_get_job_attributes (a # args) w = (Inl TypeError, w) \<and>
   CUPS_get_job_attributes [] w = (Inl UnboundLocalError, w)"
  by (simp add: CUPS_get_job_attributes_def read_local_def)

text \<open>
  Claim C6, as the code has it. \<^verbatim>\<open>get_default\<close> returns \<^verbatim>\<open>None\<close> when the connection
  reports no name or an empty one. For a name that is reported it returns the printer
  the constructor returns, whose name is that name, and raises the exception the
  constructor raises when it raises one. \<^verbatim>\<open>get_printers\<close> returns one printer per
  listed name, in order, when the constructor returns for each of them, and raises the
  exception of the first one for which it does not. The constructor returns when its
  connection opens, the queues are listed and, for a listed name, the attribute query
  answers with \<^verbatim>\<open>device-uri\<close> and \<^verbatim>\<open>printer-location\<close>.
\<close>

theorem default_and_listing_wrappers:
  "(getDefault (conn w) = Inr d \<and> (d = None \<or> d = Some []) \<longrightarrow>
      fst (CUPS_get_default w) = Inr None) \<and>
   (getDefault (conn w) = Inr (Some n) \<and> n \<noteq> [] \<longrightarrow>
      map_sum id Some (fst (Printer_init n (invoke GetDefault w))) = fst (CUPS_get_default w)) \<and>
   (init_error (conn w) n = None \<longrightarrow> (\<exists>p. fst (Printer_init n w) = Inr p \<and> name p = n)) \<and>
   (init_error (conn w) n = Some e \<longrightarrow> fst (Printer_init n w) = Inl e) \<and>
   (getDefault (conn w) = Inr (Some n) \<and> n \<noteq> [] \<and> init_error (conn w) n = None \<longrightarrow>
      (\<exists>p. fst (CUPS_get_default w) = Inr (Some p) \<and> name p = n)) \<and>
   (getDefault (conn w) = Inr (Some n) \<and> n \<noteq> [] \<and> init_error (conn w) n = Some e \<longrightarrow>
      fst (CUPS_get_default w) = Inl e) \<and>
   (getPrinters (conn w) = Inr ps \<and> (\<forall>m\<in>set ps. init_error (conn w) m = None) \<longrightarrow>
      (\<exists>qs. fst (CUPS_get_printers w) = Inr qs \<and> map name qs = ps)) \<and>
   (getPrinters (conn w) = Inr (pre @ bad # post) \<and>
    (\<forall>m\<in>set pre. init_error (conn w) m = None) \<and> init_error (conn w) bad = Some e'
    \<longrightarrow> fst (CUPS_get_printers w) = Inl e')"
proof (intro conjI impI)
  assume "getDefault (conn w) = Inr d \<and> (d = None \<or> d = Some [])"
  then show "fst (CUPS_get_default w) = Inr None"
    by (auto simp: CUPS_get_default_def conn_defs)
next
  assume "getDefault (conn w) = Inr (Some n) \<and> n \<noteq> []"
  then show "map_sum id Some (fst (Printer_init n (invoke GetDefault w))) =
      fst (CUPS_get_default w)"
    by (auto simp: CUPS_get_default_def conn_defs split: prod.splits sum.splits)
next
  assume "init_error (conn w) n = None"
  then show "\<exists>p. fst (Printer_init n w) = Inr p \<and> name p = n" by (rule Printer_init_returns)
next
  assume "init_error (conn w) n = Some e"
  then show "fst (Printer_init n w) = Inl e" by (rule Printer_init_raises)
next
  assume h: "getDefault (conn w) = Inr (Some n) \<and> n \<noteq> [] \<and> init_error (conn w) n = None"
  then obtain p where "fst (Printer_init n (invoke GetDefault w)) = Inr p" "name p = n"
    using Printer_init_returns [of "invoke GetDefault w" n] by auto
  with h show "\<exists>p. fst (CUPS_get_default w) = Inr (Some p) \<and> name p = n"
    by (auto simp: CUPS_get_default_def conn_defs split: prod.splits sum.splits)
next
  assume h: "getDefault (conn w) = Inr (Some n) \<and> n \<noteq> [] \<and> init_error (conn w) n = Some e"
  then have "fst (Printer_init n (invoke GetDefault w)) = Inl e"
    using Printer_init_raises [of "invoke GetDefault w" n e] by simp
  with h show "fst (CUPS_get_default w) = Inl e"
    by (auto simp: CUPS_get_default_def conn_defs split: prod.splits sum.splits)
next
  assume h: "getPrinters (conn w) = Inr ps \<and> (\<forall>m\<in>set ps. init_error (conn w) m = None)"
  then have "\<forall>m\<in>set ps. init_error (conn (invoke GetPrinters w)) m = None" by simp
  from get_printers_loop_ok [OF this] h
  show "\<exists>qs. fst (CUPS_get_printers w) = Inr qs \<and> map name qs = ps"
    by (simp add: CUPS_get_printers_def conn_defs)
next
  assume h: "getPrinters (conn w) = Inr (pre @ bad # post) \<and>
    (\<forall>m\<in>set pre. init_error (conn w) m = None) \<and> init_error (conn w) bad = Some e'"
  then have "\<forall>m\<in>set pre. init_error (conn (invoke GetPrinters w)) m = None"
    "init_error (conn (invoke GetPrinters w)) bad = Some e'" by simp_all
  from get_printers_loop_error [OF this, of post] h
  show "fst (CUPS_get_printers w) = Inl e'"
    by (simp add: CUPS_get_printers_def conn_defs)
qed

theorem default_and_listing_wrappers_witness:
  "(\<exists>p. fst (CUPS_get_default office) = Inr (Some p) \<and> name p = ''office'') \<and>
   (\<exists>qs. fst (CUPS_get_printers office) = Inr qs \<and> map name qs = [''office'', ''lab'', ''attic'']) \<and>
   fst (CUPS_get_default (office\<lparr>conn := office_connection\<lparr>getDefault := Inr None\<rparr>\<rparr>)) = Inr None \<and>
   fst (CUPS_get_default office_unavailable) =
     Inl (IPPError 1282 ''server-error-service-unavailable'') \<and>
   fst (CUPS_get_printers office_unavailable) =
     Inl (IPPError 1282 ''server-error-service-unavailable'') \<and>
   fst (CUPS_get_default office_down) = Inl (RuntimeError ''failed to connect to server'')"
proof -
  let ?ps = "[''office'', ''lab'', ''attic'']"
  let ?u = "IPPError 1282 ''server-error-service-unavailable''"
  let ?r = "RuntimeError ''failed to connect to server''"
  have u: "conn office_unavailable = office_connection
      \<lparr>getPrinterAttributes := (\<lambda>n. Inl ?u)\<rparr>"
    by (simp add: office_unavailable_def)
  have d: "conn office_down = office_connection\<lparr>Connection := Inl ?r\<rparr>"
    by (simp add: office_down_def)
  have eu: "init_error (conn office_unavailable) ''office'' = Some ?u"
    by (simp add: u init_error_def)
  have ed: "init_error (conn office_down) ''office'' = Some ?r"
    by (simp add: d init_error_def)
  have a: "(\<exists>p. fst (CUPS_get_default office) = Inr (Some p) \<and> name p = ''office'') \<and>
     (\<exists>qs. fst (CUPS_get_printers office) = Inr qs \<and> map name qs = ?ps)"
    using default_and_listing_wrappers [where w = office and n = "''office''" and ps = ?ps]
    by (simp add: office_init_error)
  have b: "fst (CUPS_get_default (office\<lparr>conn := office_connection\<lparr>getDefault := Inr None\<rparr>\<rparr>)) =
      Inr None"
    using default_and_listing_wrappers
      [where w = "office\<lparr>conn := office_connection\<lparr>getDefault := Inr None\<rparr>\<rparr>" and d = None]
    by simp
  have c: "fst (CUPS_get_default office_unavailable) = Inl ?u \<and>
     fst (CUPS_get_printers office_unavailable) = Inl ?u"
    using default_and_listing_wrappers [where w = office_unavailable and n = "''office''"
        and e = ?u and pre = "[]" and bad = "''office''" and post = "[''lab'', ''attic'']"
        and e' = ?u] eu
    by (simp add: u)
  have f: "fst (CUPS_get_default office_down) = Inl ?r"
    using default_and_listing_wrappers [where w = office_down and n = "''office''" and e = ?r] ed
    by (simp add: d)
  from a b c f show ?thesis by simp
qed

text \<open>
  Claim C6 as stated fails when the default queue is listed and its attribute query
  raises: the constructor lets the error through, and so do both wrappers.
\<close>

theorem get_default_propagates_IPPError:
  "getDefault (conn office_unavailable) = Inr (Some ''office'') \<and>
   fst (CUPS_get_default office_unavailable) =
     Inl (IPPError 1282 ''server-error-service-unavailable'') \<and>
   getPrinters (conn office_unavailable) = Inr [''office'', ''lab'', ''attic''] \<and>
   fst (CUPS_get_printers office_unavailable) =
     Inl (IPPError 1282 ''server-error-service-unavailable'')"
  by (simp add: office_unavailable_def CUPS_get_default_def CUPS_get_printers_def Printer_init_def
        BaseCUPS_init_def Printer_name_setter_def Printer_valid_def conn_defs Let_def)

section \<open>The printer object\<close>

text \<open>
  Claim C7, as the code has it. After \<^verbatim>\<open>Printer(n)\<close> has opened its connection, and
  after an assignment to \<^verbatim>\<open>name\<close>: when \<open>n\<close> is listed, \<^verbatim>\<open>attributes\<close> is what
  \<^verbatim>\<open>getPrinterAttributes\<close> answers for \<open>n\<close>, and \<^verbatim>\<open>device_uri\<close> and \<^verbatim>\<open>location\<close>
  are its values at \<^verbatim>\<open>device-uri\<close> and \<^verbatim>\<open>printer-location\<close>. When \<open>n\<close> is not
  listed, the constructor leaves \<^verbatim>\<open>attributes\<close>, \<^verbatim>\<open>device_uri\<close>, \<^verbatim>\<open>location\<close> and
  \<^verbatim>\<open>job_id\<close> at \<^verbatim>\<open>None\<close>, and an assignment leaves the four fields at the values they
  had: \<^verbatim>\<open>None\<close> where they were \<^verbatim>\<open>None\<close>, the cache of the former name otherwise.
\<close>

theorem attribute_caching:
  "(Connection (conn w) = Inr () \<and> getPrinters (conn w) = Inr ps \<and> n \<in> set ps \<and>
    getPrinterAttributes (conn w) n = Inr a \<and>
    a ''device-uri'' = Some u \<and> a ''printer-location'' = Some l \<longrightarrow>
      fst (Printer_init n w) =
        Inr \<lparr>name = n, printer_job_id = None, printer_attributes = Some a, device_uri = u,
             location = l, default_message = ''Unable to locate the printer.''\<rparr>) \<and>
   (getPrinters (conn w) = Inr ps \<and> n \<in> set ps \<and> getPrinterAttributes (conn w) n = Inr a \<and>
    a ''device-uri'' = Some u \<and> a ''printer-location'' = Some l \<longrightarrow>
      fst (Printer_name_setter n p w) = Inr () \<and>
      fst (snd (Printer_name_setter n p w)) =
        p\<lparr>name := n, printer_attributes := Some a, device_uri := u, location := l\<rparr>) \<and>
   (Connection (conn w) = Inr () \<and> getPrinters (conn w) = Inr ps \<and> n \<notin> set ps \<longrightarrow>
      fst (Printer_init n w) =
        Inr \<lparr>name = n, printer_job_id = None, printer_attributes = None, device_uri = PyNone,
             location = PyNone, default_message = ''Unable to locate the printer.''\<rparr>) \<and>
   (getPrinters (conn w) = Inr ps \<and> n \<notin> set ps \<longrightarrow>
      fst (Printer_name_setter n p w) = Inr () \<and>
      fst (snd (Printer_name_setter n p w)) = p\<lparr>name := n\<rparr> \<and>
      printer_attributes (fst (snd (Printer_name_setter n p w))) = printer_attributes p \<and>
      device_uri (fst (snd (Printer_name_setter n p w))) = device_uri p \<and>
      location (fst (snd (Printer_name_setter n p w))) = location p \<and>
      printer_job_id (fst (snd (Printer_name_setter n p w))) = printer_job_id p)"
  by (simp add: Printer_init_listed Printer_init_missing name_setter_listed name_setter_missing)

theorem attribute_caching_witness:
  "fst (Printer_init ''lab'' office) = Inr lab_printer \<and>
   fst (Printer_init ''ghost'' office) = Inr ghost \<and>
   fst (snd (Printer_name_setter ''lab'' ghost office)) = lab_printer \<and>
   fst (snd (Printer_name_setter ''ghost'' ghost office)) = ghost \<and>
   device_uri (fst (snd (Printer_name_setter ''ghost'' lab_printer office))) =
     PyStr ''ipp://lab.example/ipp/print''"
proof -
  let ?ps = "[''office'', ''lab'', ''attic'']"
  let ?a = "printer_attributes_of ''lab'' 3 (PyList [PyStr ''none''])"
  have a: "fst (Printer_init ''lab'' office) = Inr lab_printer \<and>
     fst (snd (Printer_name_setter ''lab'' ghost office)) = lab_printer"
    using attribute_caching [where w = office and ps = ?ps and n = "''lab''" and a = ?a
        and u = "PyStr ''ipp://lab.example/ipp/print''" and l = "PyStr ''Room 12''" and p = ghost]
    by (simp add: office_getPrinterAttributes lab_printer_def ghost_def)
  have b: "fst (Printer_init ''ghost'' office) = Inr ghost \<and>
     fst (snd (Printer_name_setter ''ghost'' ghost office)) = ghost"
    using attribute_caching [where w = office and ps = ?ps and n = "''ghost''" and p = ghost]
    by (simp add: ghost_def)
  have c: "device_uri (fst (snd (Printer_name_setter ''ghost'' lab_printer office))) =
     PyStr ''ipp://lab.example/ipp/print''"
    using attribute_caching [where w = office and ps = ?ps and n = "''ghost''" and p = lab_printer]
    by (simp add: lab_printer_def)
  from a b c show ?thesis by simp
qed

text \<open>
  Claim C7 as stated fails for an assignment: the printer built for \<^verbatim>\<open>lab\<close>, renamed to
  a queue the server does not list, keeps the attributes, the device URI and the
  location of \<^verbatim>\<open>lab\<close>, and a job id it was given by \<^verbatim>\<open>print\<close>; none of them is
  \<^verbatim>\<open>None\<close>.
\<close>

theorem renamed_printer_keeps_cache:
  "fst (Printer_init ''lab'' office) = Inr lab_printer \<and>
   fst (Printer_valid (lab_printer\<lparr>name := ''ghost''\<rparr>) office) = Inr False \<and>
   fst (snd (Printer_name_setter ''ghost'' lab_printer office)) = lab_printer\<lparr>name := ''ghost''\<rparr> \<and>
   device_uri (fst (snd (Printer_name_setter ''ghost'' lab_printer office))) =
     PyStr ''ipp://lab.example/ipp/print'' \<and>
   location (fst (snd (Printer_name_setter ''ghost'' lab_printer office))) = PyStr ''Room 12'' \<and>
   printer_attributes (fst (snd (Printer_name_setter ''ghost'' lab_printer office))) =
     Some (printer_attributes_of ''lab'' 3 (PyList [PyStr ''none''])) \<and>
   fst (snd (Printer_print ''report.pdf'' ''Report'' [] lab_printer office)) =
     lab_printer\<lparr>printer_job_id := Some 10\<rparr> \<and>
   printer_job_id (fst (snd (Printer_name_setter ''ghost''
     (lab_printer\<lparr>printer_job_id := Some 10\<rparr>) office))) = Some 10"
proof -
  have g: "getPrinters (conn office) = Inr [''office'', ''lab'', ''attic'']" by simp
  have n: "''ghost'' \<notin> set [''office'', ''lab'', ''attic'']" by simp
  have l: "name lab_printer \<in> set [''office'', ''lab'', ''attic'']" by (simp add: lab_printer_def)
  have pf: "conn_printFile ''lab'' ''report.pdf'' ''Report'' [] (invoke GetPrinters office) =
      (Inr 10, invoke (PrintFile ''lab'' ''report.pdf'' ''Report'' []) (invoke GetPrinters office))"
    by (simp add: conn_defs office_connection_def)
  have nm: "name lab_printer = ''lab''" by (simp add: lab_printer_def)
  have p: "fst (snd (Printer_print ''report.pdf'' ''Report'' [] lab_printer office)) =
      lab_printer\<lparr>printer_job_id := Some 10\<rparr>"
    using pf by (simp add: Printer_print_def Printer_validate_listed [OF g l] nm)
  show ?thesis
    using p
    by (simp add: Printer_init_lab name_setter_missing [OF g n] Printer_valid_fst [OF g]
          lab_printer_def)
qed

text \<open>
  Claim C8. \<^verbatim>\<open>valid\<close> is true exactly when the name is in the connection's list of
  queues. Assigning to \<^verbatim>\<open>valid\<close> raises \<^verbatim>\<open>AttributeError\<close> and leaves the object as it
  was.
\<close>

theorem valid_is_read_only:
  "(getPrinters (conn w) = Inr ps \<longrightarrow> fst (Printer_valid p w) = Inr (name p \<in> set ps)) \<and>
   fst (Printer_valid_setter v p w) = Inl (AttributeError ''Valid is not a writable attribute.'') \<and>
   fst (snd (Printer_valid_setter v p w)) = p"
  by (simp add: Printer_valid_fst Printer_valid_setter_def)

theorem valid_is_read_only_witness:
  "fst (Printer_valid (ghost\<lparr>name := ''lab''\<rparr>) office) = Inr True \<and>
   fst (Printer_valid ghost office) = Inr False \<and>
   fst (Printer_valid_setter (PyInt 1) ghost office) =
     Inl (AttributeError ''Valid is not a writable attribute.'') \<and>
   fst (snd (Printer_valid_setter (PyInt 1) ghost office)) = ghost"
  using valid_is_read_only [of office "[''office'', ''lab'', ''attic'']" "ghost\<lparr>name := ''lab''\<rparr>" "PyInt 1"]
    valid_is_read_only [of office "[''office'', ''lab'', ''attic'']" ghost "PyInt 1"]
  by (simp add: ghost_def)

text \<open>
  Claim C9. The body guarded by \<^verbatim>\<open>except KeyError\<close> never raises \<^verbatim>\<open>KeyError\<close>, in
  either \<^verbatim>\<open>status\<close>: the handler changes no outcome, and \<^verbatim>\<open>'Not detected.'\<close> is never
  the status of a job or of a listed printer. A state code outside the table, with
  reasons \<^verbatim>\<open>['none']\<close>, gives the status \<^verbatim>\<open>None\<close>.
\<close>

theorem KeyError_handler_is_dead:
  "except_KeyError (status_body states state reasons) = status_body states state reasons \<and>
   status_body states state reasons \<noteq> Inl (KeyError k) \<and>
   fst (Job_status j w) \<noteq> Inr (PyStr ''Not detected.'') \<and>
   (fst (Printer_valid p w) = Inr True \<longrightarrow>
      fst (Printer_status p w) \<noteq> Inr (PyStr ''Not detected.'')) \<and>
   (getJobAttributes (conn w) (job_id j) = Inr a \<and> a ''job-state'' = Some (PyInt c) \<and>
    (c < 3 \<or> 9 < c) \<and> a ''job-state-reasons'' = Some (PyList [PyStr ''none''])
    \<longrightarrow> fst (Job_status j w) = Inr PyNone) \<and>
   (getPrinters (conn w) = Inr ps \<and> name p \<in> set ps \<and>
    getPrinterAttributes (conn w) (name p) = Inr b \<and> b ''printer-state'' = Some (PyInt c') \<and>
    (c' < 3 \<or> 5 < c') \<and> b ''printer-state-reasons'' = Some (PyList [PyStr ''none''])
    \<longrightarrow> fst (Printer_status p w) = Inr PyNone)"
proof (intro conjI impI)
  show "except_KeyError (status_body states state reasons) = status_body states state reasons"
    by (rule except_status_body)
  show "status_body states state reasons \<noteq> Inl (KeyError k)"
    by (rule status_body_not_KeyError)
  show "fst (Job_status j w) \<noteq> Inr (PyStr ''Not detected.'')"
    by (rule Job_status_not_detected)
next
  assume "fst (Printer_valid p w) = Inr True"
  then show "fst (Printer_status p w) \<noteq> Inr (PyStr ''Not detected.'')"
    by (rule Printer_status_not_detected)
next
  assume h: "getJobAttributes (conn w) (job_id j) = Inr a \<and> a ''job-state'' = Some (PyInt c) \<and>
    (c < 3 \<or> 9 < c) \<and> a ''job-state-reasons'' = Some (PyList [PyStr ''none''])"
  then have "map_of job_states c = None" by (intro job_states_unknown) simp
  with h show "fst (Job_status j w) = Inr PyNone"
    by (simp add: Job_status_ok status_body_unknown)
next
  assume h: "getPrinters (conn w) = Inr ps \<and> name p \<in> set ps \<and>
    getPrinterAttributes (conn w) (name p) = Inr b \<and> b ''printer-state'' = Some (PyInt c') \<and>
    (c' < 3 \<or> 5 < c') \<and> b ''printer-state-reasons'' = Some (PyList [PyStr ''none''])"
  then have "map_of printer_states c' = None" by (intro printer_states_unknown) simp
  with h show "fst (Printer_status p w) = Inr PyNone"
    using Printer_status_ok [of w ps p b "PyInt c'" "PyList [PyStr ''none'']"]
    by (simp add: status_body_unknown)
qed

theorem KeyError_handler_is_dead_witness:
  "fst (Job_status (new_job 9) office) = Inr PyNone \<and>
   fst (Printer_status (ghost\<lparr>name := ''attic''\<rparr>) office) = Inr PyNone \<and>
   fst (Printer_status (ghost\<lparr>name := ''attic''\<rparr>) office) \<noteq> Inr (PyStr ''Not detected.'')"
proof -
  let ?p = "ghost\<lparr>name := ''attic''\<rparr>"
  note t = KeyError_handler_is_dead [of job_states "PyInt 10" "PyList [PyStr ''none'']" "''job-state''"
      "new_job 9" office ?p "job_attributes_of 10 (PyList [PyStr ''none''])" 10
      "[''office'', ''lab'', ''attic'']" "printer_attributes_of ''attic'' 6 (PyList [PyStr ''none''])" 6]
  have v: "fst (Printer_valid ?p office) = Inr True"
    by (simp add: Printer_valid_fst [of office "[''office'', ''lab'', ''attic'']"] ghost_def)
  show ?thesis
    using t v by (simp add: new_job_def office_getJobAttributes office_getPrinterAttributes ghost_def)
qed

text \<open>
  Claim C10. \<^verbatim>\<open>print\<close> on a printer that is not listed raises after the one call that
  lists the queues: \<^verbatim>\<open>printFile\<close> is not called and no field changes. On a listed
  printer it stores the job id \<^verbatim>\<open>printFile\<close> returns and returns that id.
\<close>

theorem print_is_atomic:
  "(getPrinters (conn w) = Inr ps \<and> name p \<notin> set ps \<longrightarrow>
      Printer_print filename title options p w =
        (Inl (NotImplementedError (default_message p)), p, w\<lparr>calls := calls w @ [GetPrinters]\<rparr>)) \<and>
   (getPrinters (conn w) = Inr ps \<and> name p \<in> set ps \<and>
    printFile (conn w) (name p) filename title options = Inr i \<longrightarrow>
      Printer_print filename title options p w =
        (Inr i, p\<lparr>printer_job_id := Some i\<rparr>,
         w\<lparr>calls := calls w @ [GetPrinters, PrintFile (name p) filename title options]\<rparr>))"
  by (simp add: Printer_print_def Printer_validate_missing Printer_validate_listed conn_defs invoke_def)

theorem print_is_atomic_witness:
  "Printer_print ''report.pdf'' ''Report'' [] ghost office =
     (Inl (NotImplementedError ''Unable to locate the printer.''), ghost,
      office\<lparr>calls := [GetPrinters]\<rparr>) \<and>
   Printer_print ''report.pdf'' ''Report'' [] (ghost\<lparr>name := ''lab''\<rparr>) office =
     (Inr 10, ghost\<lparr>name := ''lab'', printer_job_id := Some 10\<rparr>,
      office\<lparr>calls := [GetPrinters, PrintFile ''lab'' ''report.pdf'' ''Report'' []]\<rparr>)"
proof -
  have c: "calls office = []" by (simp add: office_def)
  have pf: "printFile office_connection ''lab'' ''report.pdf'' ''Report'' [] = Inr 10"
    by (simp add: office_connection_def)
  show ?thesis
    using print_is_atomic [of office "[''office'', ''lab'', ''attic'']" ghost
            "''report.pdf''" "''Report''" "[]" 10]
          print_is_atomic [of office "[''office'', ''lab'', ''attic'']" "ghost\<lparr>name := ''lab''\<rparr>"
            "''report.pdf''" "''Report''" "[]" 10]
    by (simp add: ghost_def c pf)
qed

end
